theory Spec2Isabelle
  imports Complex_Main
begin

section \<open>Python values, errors and string helpers\<close>

text \<open>
  The development embeds two classes of the sensitivity calculator:
  \<^verbatim>\<open>Sensitivity\<close> (src/sensitivity.py) and \<^verbatim>\<open>Parameter\<close> (src/parameter.py).
  Python floats are idealised as real numbers; every raise of the source is a value
  \<open>Inl e\<close> of the result type \<open>py_error + 'a\<close>.
\<close>

datatype py_error =
    ValueError | TypeError | NameError | IndexError | AttributeError | KeyError
  | Fatal  \<comment> \<open>\<^verbatim>\<open>self._log.err(...)\<close>: the run is aborted\<close>

definition on_ok :: "py_error + 'a \<Rightarrow> ('a \<Rightarrow> py_error + 'b) \<Rightarrow> py_error + 'b" where
  "on_ok r f = (case r of Inl e \<Rightarrow> Inl e | Inr v \<Rightarrow> f v)"

text \<open>Evaluating a list of computations left to right: the first raise wins.\<close>

fun collect :: "(py_error + 'a) list \<Rightarrow> py_error + 'a list" where
  "collect [] = Inr []"
| "collect (r # rs) = on_ok r (\<lambda>v. on_ok (collect rs) (\<lambda>vs. Inr (v # vs)))"

text \<open>\<^verbatim>\<open>range(n)\<close> for a Python int \<open>n\<close> (empty when \<open>n \<le> 0\<close>).\<close>

definition py_range :: "int \<Rightarrow> nat list" where
  "py_range n = [0..<nat n]"

text \<open>\<^verbatim>\<open>xs[i]\<close> for a non-negative index (loop variables of \<^verbatim>\<open>range\<close>).\<close>

definition item :: "'a list \<Rightarrow> nat \<Rightarrow> py_error + 'a" where
  "item xs i = (if i < length xs then Inr (xs ! i) else Inl IndexError)"

text \<open>
  The position that a Python int names in a sequence of length \<open>n\<close>: a negative index
  counts from the end, and one outside \<open>-n..n-1\<close> names nothing.
\<close>

definition index_of :: "nat \<Rightarrow> int \<Rightarrow> nat option" where
  "index_of n i =
     (if 0 \<le> i \<and> i < int n then Some (nat i)
      else if i < 0 \<and> - int n \<le> i then Some (nat (int n + i))
      else None)"

text \<open>\<^verbatim>\<open>xs[i]\<close> and \<^verbatim>\<open>xs[i] = x\<close> for any Python int.\<close>

definition py_index :: "'a list \<Rightarrow> int \<Rightarrow> py_error + 'a" where
  "py_index xs i =
     (case index_of (length xs) i of Some k \<Rightarrow> Inr (xs ! k) | None \<Rightarrow> Inl IndexError)"

definition put_index :: "'a list \<Rightarrow> int \<Rightarrow> 'a \<Rightarrow> py_error + 'a list" where
  "put_index xs i x =
     (case index_of (length xs) i of Some k \<Rightarrow> Inr (xs[k := x]) | None \<Rightarrow> Inl IndexError)"

text \<open>Reading an attribute that may not have been assigned yet.\<close>

definition attr :: "'a option \<Rightarrow> py_error + 'a" where
  "attr a = (case a of None \<Rightarrow> Inl AttributeError | Some v \<Rightarrow> Inr v)"

text \<open>
  Looking a name up in the local scope of a comprehension; the module has no global
  and Python no builtin called \<^verbatim>\<open>j\<close> or \<^verbatim>\<open>tel\<close>, so a name that is not local raises.
\<close>

definition lookup_name :: "(string \<times> 'a) list \<Rightarrow> string \<Rightarrow> py_error + 'a" where
  "lookup_name scope x = (case map_of scope x of None \<Rightarrow> Inl NameError | Some v \<Rightarrow> Inr v)"

text \<open>
  \<^verbatim>\<open>str.upper\<close>, \<^verbatim>\<open>str.lower\<close> on ASCII text: a lower-case letter (codes 97..122) has
  bit 5 set, and clearing it subtracts 32. Strings are byte strings here, so the
  model covers ASCII input.
\<close>

definition upper_char :: "char \<Rightarrow> char" where
  "upper_char c =
     (if 97 \<le> (of_char c :: nat) \<and> (of_char c :: nat) \<le> 122
      then Char (digit0 c) (digit1 c) (digit2 c) (digit3 c) (digit4 c) False (digit6 c) (digit7 c)
      else c)"

definition lower_char :: "char \<Rightarrow> char" where
  "lower_char c =
     (if 65 \<le> (of_char c :: nat) \<and> (of_char c :: nat) \<le> 90
      then Char (digit0 c) (digit1 c) (digit2 c) (digit3 c) (digit4 c) True (digit6 c) (digit7 c)
      else c)"

definition upper :: "string \<Rightarrow> string" where
  "upper s = map upper_char s"

definition lower :: "string \<Rightarrow> string" where
  "lower s = map lower_char s"

section \<open>Sensitivity (src/sensitivity.py)\<close>

subsection \<open>The channel and the engine's state\<close>

text \<open>
  What the engine reads of a channel, each field named after its accessor:
  \<open>site\<close> is \<^verbatim>\<open>ch.cam.tel.param("site")\<close>, \<open>infg\<close> is
  \<^verbatim>\<open>ch.cam.tel.exp.sim.param("infg")\<close>, \<open>ch_ndet\<close> and \<open>ch_yield\<close> are
  \<^verbatim>\<open>ch.param("ndet")\<close> and \<^verbatim>\<open>ch.param("yield")\<close>.
\<close>

record channel =
  site :: string
  infg :: bool
  ch_ndet :: real
  ch_yield :: real

text \<open>
  The attributes of a \<^verbatim>\<open>Sensitivity\<close> object that the array-NET, correlation and
  map-depth steps read and write. An attribute that has not been assigned is \<open>None\<close>.
\<close>

record sensitivity =
  nobs :: int
  ndet :: int
  NET :: "real list list option"
  NET_corr :: "real list list option"
  NET_corr_RJ :: "real list list option"
  NET_arr :: "real list list option"
  NET_arr_RJ :: "real list list option"
  corr_deg :: "real list list option"
  map_depth :: "real list list option"
  map_depth_RJ :: "real list list option"

subsection \<open>\<^verbatim>\<open>_num_sky_elem\<close> and the split of \<^verbatim>\<open>_calc_rj_temp\<close>\<close>

definition num_sky_elem :: "channel \<Rightarrow> nat" where
  "num_sky_elem ch =
     (if upper (site ch) = ''SPACE''
      then (if infg ch then 3 else 1)
      else (if infg ch then 4 else 2))"

text \<open>
  \<^verbatim>\<open>_calc_rj_temp\<close> hands the slices \<^verbatim>\<open>[:n_sky_elem]\<close> to the sky temperature and
  \<^verbatim>\<open>[n_sky_elem:]\<close> to the telescope temperature.
\<close>

definition sky_side :: "channel \<Rightarrow> 'a list \<Rightarrow> 'a list" where
  "sky_side ch xs = take (num_sky_elem ch) xs"

definition tel_side :: "channel \<Rightarrow> 'a list \<Rightarrow> 'a list" where
  "tel_side ch xs = drop (num_sky_elem ch) xs"

subsection \<open>The cascade efficiencies of \<^verbatim>\<open>_opt_pow\<close>\<close>

text \<open>
  For one observation and one detector, \<open>tran\<close> is \<^verbatim>\<open>ch.tran[i][j]\<close>: one row per
  element, one entry per frequency of \<^verbatim>\<open>ch.freqs\<close>.
\<close>

definition ones_row :: "real list \<Rightarrow> real list" where
  "ones_row freqs = map (\<lambda>f. 1) freqs"

definition zeros_row :: "real list \<Rightarrow> real list" where
  "zeros_row freqs = map (\<lambda>f. 0) freqs"

text \<open>\<^verbatim>\<open>np.vstack([ch.tran[i][j], ones])\<close>: the rows must be as long as the row of ones.\<close>

definition vstack_ones :: "real list list \<Rightarrow> real list \<Rightarrow> py_error + real list list" where
  "vstack_ones tran freqs =
     (if list_all (\<lambda>r. length r = length freqs) tran
      then Inr (tran @ [ones_row freqs]) else Inl ValueError)"

text \<open>\<^verbatim>\<open>x*y\<close> on two rows of an array, and \<^verbatim>\<open>ft.reduce(lambda x, y: x*y, rows)\<close>.\<close>

definition mul_rows :: "real list \<Rightarrow> real list \<Rightarrow> real list" where
  "mul_rows x y = map2 (*) x y"

fun reduce_mul :: "real list list \<Rightarrow> py_error + real list" where
  "reduce_mul [] = Inl TypeError"
| "reduce_mul (r # rs) = Inr (foldl mul_rows r rs)"

text \<open>\<^verbatim>\<open>xs[a:b]\<close> for \<open>0 \<le> a\<close>, \<open>0 \<le> b\<close>.\<close>

definition slice :: "'a list \<Rightarrow> nat \<Rightarrow> nat \<Rightarrow> 'a list" where
  "slice xs a b = take (b - a) (drop a xs)"

definition cum_eff_det :: "real list list \<Rightarrow> nat \<Rightarrow> py_error + real list" where
  "cum_eff_det eff_arr k = reduce_mul (drop (k + 1) eff_arr)"

definition cum_eff_sky :: "real list list \<Rightarrow> real list \<Rightarrow> nat \<Rightarrow> py_error + real list list" where
  "cum_eff_sky eff_arr freqs k =
     (if k = 0 then Inr [zeros_row freqs]
      else if k = 1 then Inr [ones_row freqs, zeros_row freqs]
      else on_ok
        (collect (map (\<lambda>m. if m < k - 2 then reduce_mul (slice eff_arr (m + 1) k)
                            else item eff_arr (m + 1)) [0..<k - 1]))
        (\<lambda>rows. Inr (rows @ [ones_row freqs, zeros_row freqs])))"

text \<open>
  The first part of the body of the loop over \<open>k\<close>: the buffered array, the
  efficiency toward the detector and the efficiencies toward the sky of element \<open>k\<close>.
\<close>

definition elem_eff ::
  "real list list \<Rightarrow> real list \<Rightarrow> nat \<Rightarrow> py_error + (real list \<times> real list list)" where
  "elem_eff tran freqs k =
     on_ok (vstack_ones tran freqs) (\<lambda>eff_arr.
     on_ok (cum_eff_det eff_arr k) (\<lambda>d.
     on_ok (cum_eff_sky eff_arr freqs k) (\<lambda>s. Inr (d, s))))"

subsection \<open>Array NET, correlation degradation and map depth\<close>

text \<open>
  The noise model is a collaborator: \<open>noise_NET_arr\<close> stands for
  \<^verbatim>\<open>self._noise.NET_arr\<close>. Each step is a comprehension over
  \<^verbatim>\<open>range(self._nobs)\<close> and \<^verbatim>\<open>range(self._ndet)\<close> that assigns one attribute;
  \<open>nobs\<close> and \<open>ndet\<close> are \<^verbatim>\<open>self._nobs\<close> and \<^verbatim>\<open>self._ndet\<close>.
\<close>

definition calc_NET_arr ::
  "(real \<Rightarrow> real \<Rightarrow> real \<Rightarrow> real) \<Rightarrow> channel \<Rightarrow> sensitivity \<Rightarrow> py_error + sensitivity" where
  "calc_NET_arr noise_NET_arr ch s =
     on_ok (collect (map (\<lambda>i. collect (map (\<lambda>j.
         on_ok (attr (NET_corr s)) (\<lambda>a.
         on_ok (item a i) (\<lambda>row.
         on_ok (item row j) (\<lambda>x.
         Inr (noise_NET_arr x (ch_ndet ch) (ch_yield ch))))))
       (py_range (ndet s)))) (py_range (nobs s))))
     (\<lambda>v. Inr (s\<lparr>NET_arr := Some v\<rparr>))"

text \<open>The RJ step assigns \<^verbatim>\<open>self._NET_arr\<close> as well: that is what the source says.\<close>

definition calc_NET_arr_RJ ::
  "(real \<Rightarrow> real \<Rightarrow> real \<Rightarrow> real) \<Rightarrow> channel \<Rightarrow> sensitivity \<Rightarrow> py_error + sensitivity" where
  "calc_NET_arr_RJ noise_NET_arr ch s =
     on_ok (collect (map (\<lambda>i. collect (map (\<lambda>j.
         on_ok (attr (NET_corr_RJ s)) (\<lambda>a.
         on_ok (item a i) (\<lambda>row.
         on_ok (item row j) (\<lambda>x.
         Inr (noise_NET_arr x (ch_ndet ch) (ch_yield ch))))))
       (py_range (ndet s)))) (py_range (nobs s))))
     (\<lambda>v. Inr (s\<lparr>NET_arr := Some v\<rparr>))"

text \<open>
  \<^verbatim>\<open>[[self._NET_corr[i][j] / self._NET[i][i] for i in range(self._ndet)]
    for i in range(self._nobs)]\<close>: both loops bind \<^verbatim>\<open>i\<close>, the inner one shadowing
  the outer, and nothing binds \<^verbatim>\<open>j\<close>. The element is evaluated left to right.
\<close>

definition corr_deg_elem :: "sensitivity \<Rightarrow> (string \<times> nat) list \<Rightarrow> py_error + real" where
  "corr_deg_elem s scope =
     on_ok (attr (NET_corr s)) (\<lambda>a.
     on_ok (lookup_name scope ''i'') (\<lambda>i1.
     on_ok (item a i1) (\<lambda>row.
     on_ok (lookup_name scope ''j'') (\<lambda>j1.
     on_ok (item row j1) (\<lambda>num.
     on_ok (attr (NET s)) (\<lambda>b.
     on_ok (lookup_name scope ''i'') (\<lambda>i2.
     on_ok (item b i2) (\<lambda>row2.
     on_ok (lookup_name scope ''i'') (\<lambda>i3.
     on_ok (item row2 i3) (\<lambda>den.
     Inr (num / den)))))))))))"

definition calc_corr_deg :: "sensitivity \<Rightarrow> py_error + sensitivity" where
  "calc_corr_deg s =
     on_ok (collect (map (\<lambda>i_outer. collect (map (\<lambda>i_inner.
         corr_deg_elem s [(''i'', i_inner), (''i'', i_outer)])
       (py_range (ndet s)))) (py_range (nobs s))))
     (\<lambda>v. Inr (s\<lparr>corr_deg := Some v\<rparr>))"

text \<open>
  \<^verbatim>\<open>self._noise.map_depth(self._NET_arr, tel.param("fsky"), ...)\<close> for
  \<^verbatim>\<open>i in range(self._ndet)\<close>, \<^verbatim>\<open>j in range(self._nobs)\<close>: the name \<^verbatim>\<open>tel\<close> is bound
  nowhere. Were it bound to a loop index, an int has no \<^verbatim>\<open>param\<close>.
\<close>

definition map_depth_elem :: "real list list option \<Rightarrow> (string \<times> nat) list \<Rightarrow> py_error + real" where
  "map_depth_elem net_arr scope =
     on_ok (attr net_arr) (\<lambda>a.
     on_ok (lookup_name scope ''tel'') (\<lambda>tel. Inl AttributeError))"

definition calc_map_depth :: "sensitivity \<Rightarrow> py_error + sensitivity" where
  "calc_map_depth s =
     on_ok (collect (map (\<lambda>j. collect (map (\<lambda>i.
         map_depth_elem (NET_arr s) [(''i'', i), (''j'', j)])
       (py_range (ndet s)))) (py_range (nobs s))))
     (\<lambda>v. Inr (s\<lparr>map_depth := Some v\<rparr>))"

definition calc_map_depth_RJ :: "sensitivity \<Rightarrow> py_error + sensitivity" where
  "calc_map_depth_RJ s =
     on_ok (collect (map (\<lambda>j. collect (map (\<lambda>i.
         map_depth_elem (NET_arr_RJ s) [(''i'', i), (''j'', j)])
       (py_range (ndet s)))) (py_range (nobs s))))
     (\<lambda>v. Inr (s\<lparr>map_depth_RJ := Some v\<rparr>))"

text \<open>
  The last five entries of the list that \<^verbatim>\<open>_sensitivity\<close> returns: array NET, RJ array
  NET, correlation degradation, map depth and RJ map depth, each read from its
  attribute. The source calls \<^verbatim>\<open>lolist()\<close> on the flattened map depth, a method an
  array does not have.
\<close>

definition outputs :: "sensitivity \<Rightarrow> py_error + real list list" where
  "outputs s =
     on_ok (attr (NET_arr s)) (\<lambda>a.
     on_ok (attr (NET_arr_RJ s)) (\<lambda>b.
     on_ok (attr (corr_deg s)) (\<lambda>c.
     on_ok (attr (map_depth s)) (\<lambda>d. Inl AttributeError))))"

text \<open>The steps of \<^verbatim>\<open>_sensitivity\<close> from the array NET on, in the source's order.\<close>

definition sensitivity_tail ::
  "(real \<Rightarrow> real \<Rightarrow> real \<Rightarrow> real) \<Rightarrow> channel \<Rightarrow> sensitivity \<Rightarrow> py_error + real list list" where
  "sensitivity_tail noise_NET_arr ch s =
     on_ok (calc_NET_arr noise_NET_arr ch s) (\<lambda>s1.
     on_ok (calc_NET_arr_RJ noise_NET_arr ch s1) (\<lambda>s2.
     on_ok (calc_corr_deg s2) (\<lambda>s3.
     on_ok (calc_map_depth s3) (\<lambda>s4.
     on_ok (calc_map_depth_RJ s4) (\<lambda>s5. outputs s5)))))"

section \<open>Parameter (src/parameter.py)\<close>

subsection \<open>Values, the object store and the collaborators\<close>

text \<open>
  Modelled from the spec: the class \<^verbatim>\<open>Distribution\<close> (src/distribution.py is not among
  the sources) is an object exposing \<^verbatim>\<open>mean()\<close>, \<^verbatim>\<open>median()\<close>, \<^verbatim>\<open>std()\<close> and a
  sampler; the three moments are its fields and the sampler is a parameter below.
\<close>

datatype distribution = Distribution (dist_mean: real) (dist_median: real) (dist_std: real)

text \<open>
  A numpy array or a Python list that an attribute holds is an object of the store,
  named by its address: \<^verbatim>\<open>self._med = self._avg\<close> makes two attributes name one
  object, and \<^verbatim>\<open>self._avg[i] = x\<close> changes that object in place. \<open>PList\<close>, \<open>PTuple\<close>
  and \<open>PDict\<close> are values that this class only reads (results of \<^verbatim>\<open>eval\<close>, the
  input tuple, the distribution dictionary); \<open>PArr\<close> is a fresh array handed to the
  caller of \<^verbatim>\<open>sample\<close>.
\<close>

datatype pyval =
    PNone
  | PBool bool
  | PInt int
  | PFloat real
  | PStr string
  | PList "pyval list"
  | PTuple "pyval list"
  | PDict "(string \<times> pyval) list"
  | PDist distribution
  | PArr "real list"
  | PRef nat

datatype seq_kind = NdArray | PyList

type_synonym store = "(seq_kind \<times> pyval list) list"

definition alloc :: "store \<Rightarrow> seq_kind \<Rightarrow> pyval list \<Rightarrow> pyval \<times> store" where
  "alloc st k xs = (PRef (length st), st @ [(k, xs)])"

text \<open>
  The builtins and library calls whose results the class consumes. Each is a
  parameter of the model, so a theorem holds whatever they return:
  \<open>py_int\<close> is \<^verbatim>\<open>int(s)\<close> and \<open>py_float\<close> is \<^verbatim>\<open>float(s)\<close> on a string (\<open>None\<close>:
  \<^verbatim>\<open>ValueError\<close>); \<open>np_array_eval\<close> is \<^verbatim>\<open>np.array(eval(s)).astype(float)\<close> for a
  literal that evaluates to a flat list (\<open>None\<close>: any exception); \<open>py_eval\<close> is
  \<^verbatim>\<open>eval(s)\<close> and \<open>py_eval_pdf\<close> is \<^verbatim>\<open>eval(s, {'PDF': 'PDF'})\<close>; \<open>py_str\<close> is \<^verbatim>\<open>str(v)\<close>
  of a value that is not a string; \<open>np_random_normal\<close> is
  \<^verbatim>\<open>np.random.normal(avg, std, nsample)\<close>, the draws of the random source;
  \<open>dist_sample\<close> is \<^verbatim>\<open>Distribution.sample(nsample=n)\<close>.
\<close>

record builtins =
  py_int :: "string \<Rightarrow> int option"
  py_float :: "string \<Rightarrow> real option"
  np_array_eval :: "string \<Rightarrow> real list option"
  py_eval :: "string \<Rightarrow> py_error + pyval"
  py_eval_pdf :: "string \<Rightarrow> py_error + pyval"
  py_str :: "pyval \<Rightarrow> string"
  np_random_normal :: "pyval \<Rightarrow> pyval \<Rightarrow> int \<Rightarrow> py_error + real list"
  dist_sample :: "distribution \<Rightarrow> int \<Rightarrow> pyval"

datatype kind = KBool | KInt | KFloat | KStr | KList | KOther

text \<open>
  The attributes of a \<^verbatim>\<open>Parameter\<close>. \<open>to_SI\<close> is \<^verbatim>\<open>self.unit.to_SI\<close> on a number
  (modelled from the spec: the unit converts a literal value into SI base units; on an
  array it converts every entry). \<^verbatim>\<open>_mult_bands\<close> is \<open>None\<close> until a store method
  assigns it. \<^verbatim>\<open>_val\<close>, \<^verbatim>\<open>_avg\<close>, \<^verbatim>\<open>_med\<close>, \<^verbatim>\<open>_std\<close> are assigned by every
  store method that returns. \<open>objs\<close> is the store of the arrays and lists that the
  attributes refer to.
\<close>

record parameter =
  to_SI :: "real \<Rightarrow> real"
  p_min :: "real option"
  p_max :: "real option"
  p_type :: kind
  band_ids :: "string list option"
  mult_bands :: "bool option"
  p_val :: pyval
  p_avg :: pyval
  p_med :: pyval
  p_std :: pyval
  objs :: store

definition spread_delim :: string where
  "spread_delim = ''+/-''"

definition float_str_vals :: "string list" where
  "float_str_vals = [''NA'', ''BAND'']"

subsection \<open>String methods\<close>

text \<open>\<^verbatim>\<open>str.strip()\<close>: the ASCII characters that Python counts as white space.\<close>

definition is_space :: "char \<Rightarrow> bool" where
  "is_space c = ((of_char c :: nat) \<in> {9, 10, 11, 12, 13, 28, 29, 30, 31, 32})"

definition strip :: "string \<Rightarrow> string" where
  "strip s = rev (dropWhile is_space (rev (dropWhile is_space s)))"

definition capitalize :: "string \<Rightarrow> string" where
  "capitalize s = (case s of [] \<Rightarrow> [] | c # cs \<Rightarrow> upper_char c # lower cs)"

text \<open>\<^verbatim>\<open>d in s\<close> and \<^verbatim>\<open>s.split(d)\<close> for a separator \<open>d\<close> that is not empty.\<close>

fun contains :: "string \<Rightarrow> string \<Rightarrow> bool" where
  "contains d [] = (d = [])"
| "contains d (c # cs) = (take (length d) (c # cs) = d \<or> contains d cs)"

function py_split :: "string \<Rightarrow> string \<Rightarrow> string \<Rightarrow> string list" where
  "py_split d acc [] = [rev acc]"
| "py_split d acc (c # cs) =
     (if d \<noteq> [] \<and> take (length d) (c # cs) = d
      then rev acc # py_split d [] (drop (length d) (c # cs))
      else py_split d (c # acc) cs)"
  by pat_completeness auto
termination
  by (relation "measure (\<lambda>(d, acc, s). length s)") auto

text \<open>
  \<^verbatim>\<open>str(v)\<close>: the string itself, or the builtin's text for another value. The two
  tests below ask only whether that text is a sentinel token or holds \<^verbatim>\<open>PDF\<close>; the
  text of a number, of \<^verbatim>\<open>None\<close>, of a truth value, of a sequence (it starts with a
  bracket) or of an object is never \<^verbatim>\<open>NA\<close> or \<^verbatim>\<open>BAND\<close>, and that of a number never
  holds \<^verbatim>\<open>PDF\<close> (the entries of an evaluated list are numbers or strings).
\<close>

definition str_of :: "builtins \<Rightarrow> pyval \<Rightarrow> string" where
  "str_of b v = (case v of PStr s \<Rightarrow> s | _ \<Rightarrow> py_str b v)"

definition in_float_str_vals :: "pyval \<Rightarrow> bool" where
  "in_float_str_vals v = (case v of PStr s \<Rightarrow> upper s \<in> set float_str_vals | _ \<Rightarrow> False)"

definition has_PDF :: "pyval \<Rightarrow> bool" where
  "has_PDF v = (case v of PStr s \<Rightarrow> contains ''PDF'' (upper s) | _ \<Rightarrow> False)"

subsection \<open>Subscripts\<close>

text \<open>
  \<^verbatim>\<open>v[i]\<close>. An address always names an object of the store; the branch for a
  dangling one is there to make the function total.
\<close>

definition getitem :: "store \<Rightarrow> pyval \<Rightarrow> int \<Rightarrow> py_error + pyval" where
  "getitem st v i =
     (case v of
        PRef a \<Rightarrow> (if a < length st then py_index (snd (st ! a)) i else Inl TypeError)
      | PList xs \<Rightarrow> py_index xs i
      | PTuple xs \<Rightarrow> py_index xs i
      | PArr xs \<Rightarrow> py_index (map PFloat xs) i
      | PStr s \<Rightarrow> on_ok (py_index s i) (\<lambda>c. Inr (PStr [c]))
      | PDict d \<Rightarrow> Inl KeyError
      | _ \<Rightarrow> Inl TypeError)"

text \<open>
  \<^verbatim>\<open>v[i] = x\<close> for an attribute \<open>v\<close>: only an object of the store can be assigned
  into (a string, a number and \<^verbatim>\<open>None\<close> raise \<^verbatim>\<open>TypeError\<close>; the read-only values are
  never held by \<^verbatim>\<open>_avg\<close> or \<^verbatim>\<open>_std\<close>). An array takes numbers only.
\<close>

definition as_array_entry :: "pyval \<Rightarrow> py_error + pyval" where
  "as_array_entry x =
     (case x of PFloat r \<Rightarrow> Inr (PFloat r) | PInt n \<Rightarrow> Inr (PFloat (of_int n))
      | PBool t \<Rightarrow> Inr (PFloat (if t then 1 else 0)) | _ \<Rightarrow> Inl ValueError)"

definition setitem :: "store \<Rightarrow> pyval \<Rightarrow> int \<Rightarrow> pyval \<Rightarrow> py_error + store" where
  "setitem st v i x =
     (case v of
        PRef a \<Rightarrow>
          (if a < length st
           then on_ok (if fst (st ! a) = NdArray then as_array_entry x else Inr x) (\<lambda>y.
                on_ok (put_index (snd (st ! a)) i y) (\<lambda>xs.
                Inr (st[a := (fst (st ! a), xs)])))
           else Inl TypeError)
      | _ \<Rightarrow> Inl TypeError)"

subsection \<open>\<^verbatim>\<open>fetch\<close>, \<^verbatim>\<open>get_avg\<close>, \<^verbatim>\<open>get_med\<close>, \<^verbatim>\<open>get_std\<close>, \<^verbatim>\<open>_is_empty\<close>\<close>

text \<open>The condition of the first \<^verbatim>\<open>return\<close> of \<^verbatim>\<open>fetch\<close>.\<close>

definition no_avg :: "parameter \<Rightarrow> bool" where
  "no_avg p = (p_val p \<noteq> PNone \<and> p_avg p = PNone)"

definition fetch :: "parameter \<Rightarrow> int \<Rightarrow> py_error + (pyval \<times> pyval \<times> pyval)" where
  "fetch p band_id =
     (if no_avg p then Inr (p_val p, p_val p, PStr ''NA'')
      else on_ok (attr (mult_bands p)) (\<lambda>mb.
        if mb
        then on_ok (getitem (objs p) (p_avg p) (band_id - 1)) (\<lambda>a.
             on_ok (getitem (objs p) (p_med p) (band_id - 1)) (\<lambda>m.
             on_ok (getitem (objs p) (p_std p) (band_id - 1)) (\<lambda>s.
             Inr (a, m, s))))
        else Inr (p_avg p, p_med p, p_std p)))"

definition get_val :: "parameter \<Rightarrow> pyval" where
  "get_val p = p_val p"

definition get_avg :: "parameter \<Rightarrow> int \<Rightarrow> py_error + pyval" where
  "get_avg p band_id = on_ok (fetch p band_id) (\<lambda>(a, m, s). Inr a)"

definition get_med :: "parameter \<Rightarrow> int \<Rightarrow> py_error + pyval" where
  "get_med p band_id = on_ok (fetch p band_id) (\<lambda>(a, m, s). Inr m)"

definition get_std :: "parameter \<Rightarrow> int \<Rightarrow> py_error + pyval" where
  "get_std p band_id = on_ok (fetch p band_id) (\<lambda>(a, m, s). Inr s)"

definition is_empty :: "parameter \<Rightarrow> int \<Rightarrow> py_error + bool" where
  "is_empty p band_id =
     on_ok (attr (mult_bands p)) (\<lambda>mb.
       if mb
       then on_ok (getitem (objs p) (p_avg p) (band_id - 1)) (\<lambda>a. Inr (in_float_str_vals a))
       else Inr (in_float_str_vals (p_avg p)))"

subsection \<open>\<^verbatim>\<open>_sig_figs\<close> and \<^verbatim>\<open>change\<close>\<close>

text \<open>
  \<^verbatim>\<open>round(x, n)\<close> on an exact number: to \<open>n\<close> decimals (to a multiple of a power of
  ten when \<open>n\<close> is negative), a tie going to the even neighbour.
\<close>

definition round_half_even :: "real \<Rightarrow> int" where
  "round_half_even x =
     (if x - of_int \<lfloor>x\<rfloor> < 1 / 2 then \<lfloor>x\<rfloor>
      else if 1 / 2 < x - of_int \<lfloor>x\<rfloor> then \<lfloor>x\<rfloor> + 1
      else if even \<lfloor>x\<rfloor> then \<lfloor>x\<rfloor> else \<lfloor>x\<rfloor> + 1)"

definition py_round :: "real \<Rightarrow> int \<Rightarrow> real" where
  "py_round x n =
     (if 0 \<le> n then of_int (round_half_even (x * 10 ^ nat n)) / 10 ^ nat n
      else of_int (round_half_even (x / 10 ^ nat (- n))) * 10 ^ nat (- n))"

definition sig_figs_real :: "real \<Rightarrow> int \<Rightarrow> real" where
  "sig_figs_real inp sig =
     (if inp = 0 then inp else py_round inp (sig - \<lfloor>log 10 \<bar>inp\<bar>\<rfloor> - 1))"

text \<open>Two numbers differ at five significant figures.\<close>

definition sig5_differ :: "real \<Rightarrow> real \<Rightarrow> bool" where
  "sig5_differ x y = (sig_figs_real x 5 \<noteq> sig_figs_real y 5)"

definition as_number :: "pyval \<Rightarrow> real option" where
  "as_number v =
     (case v of PFloat x \<Rightarrow> Some x | PInt n \<Rightarrow> Some (of_int n)
      | PBool t \<Rightarrow> Some (if t then 1 else 0) | _ \<Rightarrow> None)"

text \<open>
  \<^verbatim>\<open>self._sig_figs(v, sig)\<close> for a stored value: a number is rounded; a string,
  \<^verbatim>\<open>None\<close> or a list has no \<^verbatim>\<open>abs\<close>. An array of one entry passes the test
  \<^verbatim>\<open>if inp == 0\<close>: when the entry is 0 the array itself is returned, and it compares
  as the number 0; otherwise \<^verbatim>\<open>round\<close> is reached, and an array has no
  \<^verbatim>\<open>__round__\<close> (\<^verbatim>\<open>TypeError\<close>). An array of more entries has no truth value for
  the test (\<^verbatim>\<open>ValueError\<close>); an empty one is false there and fails at \<^verbatim>\<open>int\<close>.
\<close>

definition sig_figs :: "store \<Rightarrow> pyval \<Rightarrow> int \<Rightarrow> py_error + real" where
  "sig_figs st v sig =
     (case as_number v of
        Some x \<Rightarrow> Inr (sig_figs_real x sig)
      | None \<Rightarrow>
         (case v of
            PRef a \<Rightarrow>
              (if a < length st \<and> fst (st ! a) = NdArray
               then (case snd (st ! a) of
                       [] \<Rightarrow> Inl TypeError
                     | [x] \<Rightarrow> (if as_number x = Some 0 then Inr 0 else Inl TypeError)
                     | _ \<Rightarrow> Inl ValueError)
               else Inl TypeError)
          | _ \<Rightarrow> Inl TypeError))"

text \<open>\<^verbatim>\<open>self._sig_figs(new, 5) != self._sig_figs(cur, 5)\<close>.\<close>

definition differs_5 :: "store \<Rightarrow> real \<Rightarrow> pyval \<Rightarrow> py_error + bool" where
  "differs_5 st new cur = on_ok (sig_figs st cur 5) (\<lambda>r. Inr (sig_figs_real new 5 \<noteq> r))"

text \<open>\<^verbatim>\<open>v.upper()\<close>: only a string has the method.\<close>

definition upper_of :: "pyval \<Rightarrow> py_error + string" where
  "upper_of v = (case v of PStr s \<Rightarrow> Inr (upper s) | _ \<Rightarrow> Inl AttributeError)"

text \<open>\<^verbatim>\<open>self.unit.to_SI(v)\<close> for a value handed to \<^verbatim>\<open>change\<close>.\<close>

definition to_SI_val :: "parameter \<Rightarrow> pyval \<Rightarrow> py_error + real" where
  "to_SI_val p v = (case as_number v of Some x \<Rightarrow> Inr (to_SI p x) | None \<Rightarrow> Inl TypeError)"

text \<open>The branch of \<^verbatim>\<open>change\<close> for a string.\<close>

definition change_str :: "parameter \<Rightarrow> string \<Rightarrow> int \<Rightarrow> py_error + (bool \<times> parameter)" where
  "change_str p avg_new band_id =
     on_ok (attr (mult_bands p)) (\<lambda>mb.
       if mb
       then on_ok (getitem (objs p) (p_avg p) (band_id - 1)) (\<lambda>cur.
            on_ok (upper_of cur) (\<lambda>u.
            if u \<noteq> upper avg_new
            then on_ok (setitem (objs p) (p_avg p) (band_id - 1) (PStr avg_new)) (\<lambda>st.
                 Inr (True, p\<lparr>objs := st\<rparr>))
            else Inr (False, p)))
       else on_ok (upper_of (p_avg p)) (\<lambda>u.
            if u \<noteq> upper avg_new then Inr (True, p\<lparr>p_avg := PStr avg_new\<rparr>)
            else Inr (False, p)))"

text \<open>The branch of \<^verbatim>\<open>change\<close> for a float.\<close>

definition change_num ::
  "parameter \<Rightarrow> real \<Rightarrow> pyval \<Rightarrow> int \<Rightarrow> py_error + (bool \<times> parameter)" where
  "change_num p x new_std band_id =
     on_ok (is_empty p band_id) (\<lambda>empty.
     on_ok (attr (mult_bands p)) (\<lambda>mb.
       if empty
       then (if mb
             then on_ok (setitem (objs p) (p_avg p) (band_id - 1) (PFloat (to_SI p x))) (\<lambda>st.
                  Inr (True, p\<lparr>objs := st\<rparr>))
             else Inr (True, p\<lparr>p_avg := PFloat (to_SI p x)\<rparr>))
       else if mb
       then on_ok (getitem (objs p) (p_avg p) (band_id - 1)) (\<lambda>cur.
            on_ok (differs_5 (objs p) (to_SI p x) cur) (\<lambda>d.
            on_ok (if d
                   then on_ok (setitem (objs p) (p_avg p) (band_id - 1) (PFloat (to_SI p x)))
                          (\<lambda>st. Inr (p\<lparr>objs := st\<rparr>))
                   else Inr p) (\<lambda>p1.
            if new_std = PNone then Inr (d, p1)
            else on_ok (to_SI_val p1 new_std) (\<lambda>std_new.
                 on_ok (getitem (objs p1) (p_std p1) (band_id - 1)) (\<lambda>cur_s.
                 on_ok (differs_5 (objs p1) std_new cur_s) (\<lambda>ds.
                 if ds
                 then on_ok (setitem (objs p1) (p_std p1) (band_id - 1) (PFloat std_new)) (\<lambda>st.
                      Inr (True, p1\<lparr>objs := st\<rparr>))
                 else Inr (d, p1)))))))
       else on_ok (differs_5 (objs p) (to_SI p x) (p_avg p)) (\<lambda>d.
            on_ok (Inr (if d then p\<lparr>p_avg := PFloat (to_SI p x)\<rparr> else p)) (\<lambda>p1.
            if new_std = PNone then Inr (d, p1)
            else on_ok (to_SI_val p1 new_std) (\<lambda>std_new.
                 on_ok (differs_5 (objs p1) std_new (p_std p1)) (\<lambda>ds.
                 if ds then Inr (True, p1\<lparr>p_std := PFloat std_new\<rparr>)
                 else Inr (d, p1)))))))"

text \<open>
  \<^verbatim>\<open>change(new_avg, new_std=None, band_id=1)\<close> returns the flag and leaves the object
  changed; any value that is neither a string nor a float is refused by
  \<^verbatim>\<open>self._log.err\<close>.
\<close>

definition change :: "parameter \<Rightarrow> pyval \<Rightarrow> pyval \<Rightarrow> int \<Rightarrow> py_error + (bool \<times> parameter)" where
  "change p new_avg new_std band_id =
     (case new_avg of
        PStr s \<Rightarrow> change_str p s band_id
      | PFloat x \<Rightarrow> change_num p x new_std band_id
      | _ \<Rightarrow> Inl Fatal)"

text \<open>A sequence of calls, each on the object the previous one left.\<close>

fun changes :: "parameter \<Rightarrow> (pyval \<times> pyval \<times> int) list \<Rightarrow> py_error + parameter" where
  "changes p [] = Inr p"
| "changes p ((new_avg, new_std, band_id) # cs) =
     on_ok (change p new_avg new_std band_id) (\<lambda>(r, p'). changes p' cs)"

subsection \<open>\<^verbatim>\<open>sample\<close>\<close>

text \<open>
  The truth value of the array \<^verbatim>\<open>samp < min\<close>: that of its entry when it has one,
  an error when it has more, and false when it has none (so it is in the numpy
  releases that have \<^verbatim>\<open>np.float\<close> and \<^verbatim>\<open>np.string_\<close>, which the source uses).
\<close>

definition array_truth :: "bool list \<Rightarrow> py_error + bool" where
  "array_truth bs = (case bs of [] \<Rightarrow> Inr False | [t] \<Rightarrow> Inr t | _ \<Rightarrow> Inl ValueError)"

text \<open>
  The numbers that a comparison of a stored value with a float goes through, entry by
  entry for an array; \<^verbatim>\<open>np.any(std <= 0.)\<close> for the std that \<^verbatim>\<open>fetch\<close> took from an
  attribute.
\<close>

definition numbers_of :: "store \<Rightarrow> pyval \<Rightarrow> py_error + real list" where
  "numbers_of st v =
     (case as_number v of
        Some x \<Rightarrow> Inr [x]
      | None \<Rightarrow>
         (case v of
            PRef a \<Rightarrow>
              (if a < length st \<and> list_all (\<lambda>x. as_number x \<noteq> None) (snd (st ! a))
               then Inr (map (\<lambda>x. the (as_number x)) (snd (st ! a)))
               else Inl TypeError)
          | _ \<Rightarrow> Inl TypeError))"

definition any_nonpositive :: "store \<Rightarrow> pyval \<Rightarrow> py_error + bool" where
  "any_nonpositive st std = on_ok (numbers_of st std) (\<lambda>xs. Inr (list_ex (\<lambda>x. x \<le> 0) xs))"

text \<open>The two tests after the draw, for one draw and for an array of draws.\<close>

definition clamp_scalar :: "real option \<Rightarrow> real option \<Rightarrow> real \<Rightarrow> pyval" where
  "clamp_scalar lo hi samp =
     (if lo \<noteq> None \<and> samp < the lo then PFloat (the lo)
      else if hi \<noteq> None \<and> the hi < samp then PFloat (the hi)
      else PFloat samp)"

definition clamp_array :: "real option \<Rightarrow> real option \<Rightarrow> real list \<Rightarrow> py_error + pyval" where
  "clamp_array lo hi samp =
     on_ok (case lo of None \<Rightarrow> Inr False
            | Some l \<Rightarrow> array_truth (map (\<lambda>d. d < l) samp)) (\<lambda>below.
     if below then Inr (PFloat (the lo))
     else on_ok (case hi of None \<Rightarrow> Inr False
                 | Some h \<Rightarrow> array_truth (map (\<lambda>d. h < d) samp)) (\<lambda>above.
          if above then Inr (PFloat (the hi)) else Inr (PArr samp)))"

text \<open>
  \<^verbatim>\<open>sample(band_id=1, nsample=1, min=None, max=None, null=False)\<close>. The test
  \<^verbatim>\<open>std is "NA"\<close> compares identities: it holds for the literal that the first
  \<^verbatim>\<open>return\<close> of \<^verbatim>\<open>fetch\<close> hands out and for no string built at run time, so it is the
  condition \<open>no_avg\<close>.
\<close>

definition sample ::
  "builtins \<Rightarrow> parameter \<Rightarrow> int \<Rightarrow> int \<Rightarrow> real option \<Rightarrow> real option \<Rightarrow> bool \<Rightarrow> py_error + pyval" where
  "sample b p band_id nsample min_arg max_arg null =
     (let lo = (case min_arg of None \<Rightarrow> p_min p | Some m \<Rightarrow> Some m);
          hi = (case max_arg of None \<Rightarrow> p_max p | Some m \<Rightarrow> Some m)
      in on_ok (is_empty p 1) (\<lambda>empty.
         if empty then Inr (PStr (upper (strip (str_of b (p_avg p)))))
         else (case p_val p of
                 PDist d \<Rightarrow> Inr (dist_sample b d nsample)
               | _ \<Rightarrow>
                 on_ok (fetch p band_id) (\<lambda>(avg, med, std).
                 on_ok (if no_avg p then Inr True else any_nonpositive (objs p) std) (\<lambda>fixed.
                 if fixed then Inr avg
                 else on_ok (np_random_normal b (if null then PFloat 0 else avg) std nsample)
                   (\<lambda>draws.
                   if nsample = 1
                   then on_ok (item draws 0) (\<lambda>samp. Inr (clamp_scalar lo hi samp))
                   else clamp_array lo hi draws))))))"

subsection \<open>The store methods and the constructor\<close>

text \<open>
  Modelled from the spec: \<^verbatim>\<open>self._log.err\<close> (src/log.py is not among the sources) is
  fatal, "all detected faults are fatal-and-abort"; it is the result \<open>Inl Fatal\<close>.
\<close>

definition store_bool :: "parameter \<Rightarrow> pyval \<Rightarrow> py_error + parameter" where
  "store_bool p inp =
     (case inp of
        PStr s \<Rightarrow>
          (let val = strip (capitalize (lower s))
           in if val \<noteq> ''True'' \<and> val \<noteq> ''False'' then Inl Fatal
              else Inr (p\<lparr>mult_bands := Some False, p_val := PBool (val = ''True''),
                         p_avg := PNone, p_med := PNone, p_std := PNone\<rparr>))
      | _ \<Rightarrow> Inl AttributeError)"

text \<open>\<^verbatim>\<open>int(inp)\<close>: a float is cut toward zero; only \<^verbatim>\<open>ValueError\<close> is caught.\<close>

definition int_of :: "builtins \<Rightarrow> pyval \<Rightarrow> py_error + int" where
  "int_of b v =
     (case v of
        PStr s \<Rightarrow> (case py_int b s of Some n \<Rightarrow> Inr n | None \<Rightarrow> Inl ValueError)
      | PInt n \<Rightarrow> Inr n
      | PBool t \<Rightarrow> Inr (if t then 1 else 0)
      | PFloat x \<Rightarrow> Inr (if 0 \<le> x then \<lfloor>x\<rfloor> else \<lceil>x\<rceil>)
      | _ \<Rightarrow> Inl TypeError)"

definition store_int :: "builtins \<Rightarrow> parameter \<Rightarrow> pyval \<Rightarrow> py_error + parameter" where
  "store_int b p inp =
     (case int_of b inp of
        Inr n \<Rightarrow> Inr (p\<lparr>mult_bands := Some False, p_val := PNone,
                        p_avg := PInt n, p_med := PInt n, p_std := PFloat 0\<rparr>)
      | Inl e \<Rightarrow> (if e = ValueError then Inl Fatal else Inl e))"

definition store_str :: "builtins \<Rightarrow> parameter \<Rightarrow> pyval \<Rightarrow> py_error + parameter" where
  "store_str b p inp =
     Inr (p\<lparr>mult_bands := Some False, p_val := PStr (str_of b inp),
            p_avg := PNone, p_med := PNone, p_std := PNone\<rparr>)"

definition store_list :: "builtins \<Rightarrow> parameter \<Rightarrow> pyval \<Rightarrow> py_error + parameter" where
  "store_list b p inp =
     (case inp of
        PStr s \<Rightarrow>
          on_ok (py_eval b s) (\<lambda>v.
            case v of
              PList xs \<Rightarrow> Inr (p\<lparr>mult_bands := Some False, p_val := PList xs,
                                  p_avg := PNone, p_med := PNone, p_std := PNone\<rparr>)
            | _ \<Rightarrow> Inl Fatal)
      | _ \<Rightarrow> Inl TypeError)"

text \<open>\<^verbatim>\<open>len(v)\<close>, where \<open>v\<close> has a length.\<close>

definition py_len :: "store \<Rightarrow> pyval \<Rightarrow> nat option" where
  "py_len st v =
     (case v of
        PStr s \<Rightarrow> Some (length s)
      | PList xs \<Rightarrow> Some (length xs)
      | PTuple xs \<Rightarrow> Some (length xs)
      | PDict d \<Rightarrow> Some (length d)
      | PArr xs \<Rightarrow> Some (length xs)
      | PRef a \<Rightarrow> (if a < length st then Some (length (snd (st ! a))) else None)
      | _ \<Rightarrow> None)"

text \<open>\<^verbatim>\<open>_zero\<close>: \<^verbatim>\<open>np.zeros(len(val))\<close>, or \<^verbatim>\<open>0.\<close> when \<^verbatim>\<open>len\<close> raises.\<close>

definition zero :: "store \<Rightarrow> pyval \<Rightarrow> pyval \<times> store" where
  "zero st val =
     (case py_len st val of
        Some n \<Rightarrow> alloc st NdArray (replicate n (PFloat 0))
      | None \<Rightarrow> (PFloat 0, st))"

text \<open>
  \<^verbatim>\<open>_float\<close>: the value and the object with \<^verbatim>\<open>_mult_bands\<close> assigned (and the new
  array in its store).
\<close>

definition float_conv :: "builtins \<Rightarrow> parameter \<Rightarrow> pyval \<Rightarrow> py_error + (pyval \<times> parameter)" where
  "float_conv b p val =
     (case val of
        PNone \<Rightarrow> Inr (PNone, p\<lparr>mult_bands := Some False\<rparr>)
      | PStr s \<Rightarrow>
          (case py_float b s of
             Some x \<Rightarrow> Inr (PFloat (to_SI p x), p\<lparr>mult_bands := Some False\<rparr>)
           | None \<Rightarrow>
              (case np_array_eval b s of
                 Some arr \<Rightarrow>
                   (case alloc (objs p) NdArray (map (\<lambda>x. PFloat (to_SI p x)) arr) of
                      (r, st) \<Rightarrow> Inr (r, p\<lparr>mult_bands := Some True, objs := st\<rparr>))
               | None \<Rightarrow>
                   (if upper (strip s) \<in> set float_str_vals
                    then Inr (PStr (upper (strip s)), p\<lparr>mult_bands := Some False\<rparr>)
                    else Inl Fatal)))
      | _ \<Rightarrow>
          (case as_number val of
             Some x \<Rightarrow> Inr (PFloat (to_SI p x), p\<lparr>mult_bands := Some False\<rparr>)
           | None \<Rightarrow> Inl TypeError))"

definition store_float_str :: "builtins \<Rightarrow> parameter \<Rightarrow> pyval \<Rightarrow> py_error + parameter" where
  "store_float_str b p inp =
     (case inp of
        PStr s \<Rightarrow>
          (if contains spread_delim s
           then (case py_split spread_delim [] s of
                   v0 # v1 # rest \<Rightarrow>
                     on_ok (float_conv b p (PStr v0)) (\<lambda>(a, p1).
                     on_ok (float_conv b (p1\<lparr>p_val := PNone, p_avg := a, p_med := a\<rparr>) (PStr v1))
                       (\<lambda>(s, p2). Inr (p2\<lparr>p_std := s\<rparr>)))
                 | _ \<Rightarrow> Inl IndexError)
           else on_ok (float_conv b p (PStr s)) (\<lambda>(a, p1).
                case zero (objs p1) a of
                  (z, st) \<Rightarrow> Inr (p1\<lparr>p_val := PNone, p_avg := a, p_med := a, p_std := z,
                                      objs := st\<rparr>)))
      | _ \<Rightarrow> Inl TypeError)"

definition store_float_dist :: "builtins \<Rightarrow> parameter \<Rightarrow> distribution \<Rightarrow> py_error + parameter" where
  "store_float_dist b p d =
     on_ok (float_conv b (p\<lparr>mult_bands := Some False, p_val := PDist d\<rparr>) (PFloat (dist_mean d)))
       (\<lambda>(a, p1).
     on_ok (float_conv b (p1\<lparr>p_avg := a\<rparr>) (PFloat (dist_median d))) (\<lambda>(m, p2).
     on_ok (float_conv b (p2\<lparr>p_med := m\<rparr>) (PFloat (dist_std d))) (\<lambda>(s, p3).
     Inr (p3\<lparr>p_std := s\<rparr>))))"

text \<open>\<^verbatim>\<open>float(v)\<close> of an entry of an evaluated list; \<^verbatim>\<open>d[k]\<close>; the moments of a value.\<close>

definition float_of :: "builtins \<Rightarrow> pyval \<Rightarrow> py_error + real" where
  "float_of b v =
     (case v of
        PStr s \<Rightarrow> (case py_float b s of Some x \<Rightarrow> Inr x | None \<Rightarrow> Inl ValueError)
      | _ \<Rightarrow> (case as_number v of Some x \<Rightarrow> Inr x | None \<Rightarrow> Inl TypeError))"

definition dict_get :: "pyval \<Rightarrow> string \<Rightarrow> py_error + pyval" where
  "dict_get d k =
     (case d of
        PDict kvs \<Rightarrow> (case map_of kvs k of Some v \<Rightarrow> Inr v | None \<Rightarrow> Inl KeyError)
      | _ \<Rightarrow> Inl TypeError)"

definition moments :: "pyval \<Rightarrow> py_error + (pyval \<times> pyval \<times> pyval \<times> pyval)" where
  "moments v =
     (case v of
        PDist d \<Rightarrow> Inr (PDist d, PFloat (dist_mean d), PFloat (dist_median d), PFloat (dist_std d))
      | _ \<Rightarrow> Inl AttributeError)"

text \<open>
  The loop of \<^verbatim>\<open>_store_float_tuple\<close> over \<^verbatim>\<open>enumerate(mean_val)\<close>: for entry \<open>i\<close> the
  four values appended to \<^verbatim>\<open>_val\<close>, \<^verbatim>\<open>_avg\<close>, \<^verbatim>\<open>_med\<close> and \<^verbatim>\<open>_std\<close>.
\<close>

fun tuple_entries ::
  "builtins \<Rightarrow> parameter \<Rightarrow> pyval \<Rightarrow> pyval list option \<Rightarrow> nat \<Rightarrow> pyval list
     \<Rightarrow> py_error + (pyval \<times> pyval \<times> pyval \<times> pyval) list" where
  "tuple_entries b p dist_dict std_val i [] = Inr []"
| "tuple_entries b p dist_dict std_val i (mv # mvs) =
     on_ok (case std_val of None \<Rightarrow> Inr (PFloat 0) | Some svs \<Rightarrow> item svs i) (\<lambda>sv.
     on_ok (if has_PDF mv
            then on_ok (case band_ids p of None \<Rightarrow> Inl Fatal | Some ids \<Rightarrow> item ids i) (\<lambda>bid.
                 on_ok (case dict_get dist_dict (upper bid) of
                          Inl e \<Rightarrow> (if e = KeyError then Inl Fatal else Inl e)
                        | Inr d \<Rightarrow> Inr d) moments)
            else on_ok (float_of b mv) (\<lambda>m.
                 on_ok (float_of b sv) (\<lambda>s.
                 Inr (PNone, PFloat m, PFloat m, PFloat s)))) (\<lambda>e.
     on_ok (tuple_entries b p dist_dict std_val (i + 1) mvs) (\<lambda>es. Inr (e # es))))"

text \<open>
  \<^verbatim>\<open>_store_float_tuple\<close>. Two of its error messages cannot be built, so the exception
  of building them is raised before \<^verbatim>\<open>self._log.err\<close> is called: for a mean that is
  the string \<^verbatim>\<open>PDF\<close> with no key \<^verbatim>\<open>'ALL'\<close>, the handler of the \<^verbatim>\<open>KeyError\<close> reads the
  local \<^verbatim>\<open>band_id\<close>, which only the loop over a list assigns (\<^verbatim>\<open>UnboundLocalError\<close>, a
  \<^verbatim>\<open>NameError\<close>); for another string, the message has two places and one argument
  (\<^verbatim>\<open>TypeError\<close>). A mean that is a number leaves \<^verbatim>\<open>_mult_bands\<close> as it was.
\<close>

definition store_float_tuple :: "builtins \<Rightarrow> parameter \<Rightarrow> pyval list \<Rightarrow> py_error + parameter" where
  "store_float_tuple b p inp =
     (case inp of
        [param_str, dist_dict] \<Rightarrow>
          (if dist_dict = PNone then store_float_str b p param_str
           else (case param_str of
             PStr s \<Rightarrow>
               on_ok (if contains spread_delim s
                      then (case py_split spread_delim [] s of
                              v0 # v1 # rest \<Rightarrow>
                                on_ok (py_eval_pdf b v0) (\<lambda>m.
                                on_ok (py_eval_pdf b v1) (\<lambda>s. Inr (m, s)))
                            | _ \<Rightarrow> Inl IndexError)
                      else on_ok (py_eval_pdf b s) (\<lambda>m. Inr (m, PNone))) (\<lambda>(mean_val, std_val).
               case mean_val of
                 PList mvs \<Rightarrow>
                   on_ok (case std_val of
                            PNone \<Rightarrow> Inr None
                          | PList svs \<Rightarrow> (if length mvs \<noteq> length svs then Inl Fatal
                                          else Inr (Some svs))
                          | _ \<Rightarrow> Inl Fatal) (\<lambda>svs.
                   on_ok (tuple_entries b p dist_dict svs 0 mvs) (\<lambda>es.
                   case alloc (objs p) PyList (map (\<lambda>(v, a, m, s). v) es) of (rv, st1) \<Rightarrow>
                   case alloc st1 PyList (map (\<lambda>(v, a, m, s). a) es) of (ra, st2) \<Rightarrow>
                   case alloc st2 PyList (map (\<lambda>(v, a, m, s). m) es) of (rm, st3) \<Rightarrow>
                   case alloc st3 PyList (map (\<lambda>(v, a, m, s). s) es) of (rs, st4) \<Rightarrow>
                   Inr (p\<lparr>mult_bands := Some True, p_val := rv, p_avg := ra, p_med := rm,
                          p_std := rs, objs := st4\<rparr>)))
               | PStr m \<Rightarrow>
                   (if contains ''PDF'' (upper m)
                    then on_ok (case dict_get dist_dict ''ALL'' of
                                  Inl e \<Rightarrow> (if e = KeyError then Inl NameError else Inl e)
                                | Inr d \<Rightarrow> Inr d) (\<lambda>d.
                         on_ok (moments d) (\<lambda>(v, a, m, s).
                         Inr (p\<lparr>mult_bands := Some False, p_val := v, p_avg := a, p_med := m,
                                p_std := s\<rparr>)))
                    else Inl TypeError)
               | _ \<Rightarrow>
                   (if as_number mean_val \<noteq> None
                    then (case std_val of
                            PNone \<Rightarrow> Inr (p\<lparr>p_val := PNone, p_avg := mean_val,
                                                p_med := mean_val, p_std := PFloat 0\<rparr>)
                          | PFloat s \<Rightarrow> Inr (p\<lparr>p_val := PNone, p_avg := mean_val,
                                                p_med := mean_val, p_std := PFloat s\<rparr>)
                          | _ \<Rightarrow> Inl Fatal)
                    else Inl Fatal))
           | _ \<Rightarrow> Inl TypeError))
      | _ \<Rightarrow> Inl Fatal)"

definition store_float :: "builtins \<Rightarrow> parameter \<Rightarrow> pyval \<Rightarrow> py_error + parameter" where
  "store_float b p inp =
     (case inp of
        PStr s \<Rightarrow> store_float_str b p inp
      | PDist d \<Rightarrow> store_float_dist b p d
      | PTuple xs \<Rightarrow> store_float_tuple b p xs
      | _ \<Rightarrow> Inl Fatal)"

definition store_param :: "builtins \<Rightarrow> parameter \<Rightarrow> pyval \<Rightarrow> py_error + parameter" where
  "store_param b p inp =
     (case p_type p of
        KBool \<Rightarrow> store_bool p inp
      | KInt \<Rightarrow> store_int b p inp
      | KFloat \<Rightarrow> store_float b p inp
      | KStr \<Rightarrow> store_str b p inp
      | KList \<Rightarrow> store_list b p inp
      | KOther \<Rightarrow> Inl Fatal)"

text \<open>
  \<^verbatim>\<open>_check_range\<close>: \<^verbatim>\<open>np.any(np.array(self._avg) < self._min)\<close> and the like, each
  evaluated only when its bound is there.
\<close>

definition check_range :: "parameter \<Rightarrow> py_error + unit" where
  "check_range p =
     (if p_avg p = PNone \<or> (case p_avg p of PStr s \<Rightarrow> True | _ \<Rightarrow> False) then Inr ()
      else on_ok (case p_min p of
                    None \<Rightarrow> Inr False
                  | Some lo \<Rightarrow> on_ok (numbers_of (objs p) (p_avg p))
                                 (\<lambda>xs. Inr (list_ex (\<lambda>x. x < lo) xs))) (\<lambda>below.
           if below then Inl Fatal
           else on_ok (case p_max p of
                         None \<Rightarrow> Inr False
                       | Some hi \<Rightarrow> on_ok (numbers_of (objs p) (p_avg p))
                                      (\<lambda>xs. Inr (list_ex (\<lambda>x. hi < x) xs))) (\<lambda>above.
                if above then Inl Fatal else Inr ())))"

text \<open>
  \<^verbatim>\<open>__init__\<close>: the attributes come from the arguments (or, all alike, from a
  standard parameter); then \<^verbatim>\<open>_store_param\<close> and \<^verbatim>\<open>_check_range\<close>.
\<close>

definition new_parameter ::
  "(real \<Rightarrow> real) \<Rightarrow> real option \<Rightarrow> real option \<Rightarrow> kind \<Rightarrow> string list option \<Rightarrow> parameter" where
  "new_parameter unit mn mx k ids =
     \<lparr>to_SI = unit, p_min = mn, p_max = mx, p_type = k, band_ids = ids, mult_bands = None,
      p_val = PNone, p_avg = PNone, p_med = PNone, p_std = PNone, objs = []\<rparr>"

definition init ::
  "builtins \<Rightarrow> (real \<Rightarrow> real) \<Rightarrow> real option \<Rightarrow> real option \<Rightarrow> kind \<Rightarrow> string list option
     \<Rightarrow> pyval \<Rightarrow> py_error + parameter" where
  "init b unit mn mx k ids inp =
     on_ok (store_param b (new_parameter unit mn mx k ids) inp) (\<lambda>p.
     on_ok (check_range p) (\<lambda>u. Inr p))"

subsection \<open>Sharing between the attributes, and what \<^verbatim>\<open>change\<close> leaves alone\<close>

text \<open>
  The median is apart when it is not the very object that the average or the std
  names. \<^verbatim>\<open>_store_float_str\<close> assigns \<^verbatim>\<open>self._med = self._avg\<close>, so for a per-band
  literal the two attributes name one array; \<^verbatim>\<open>_store_float_tuple\<close> builds four lists.
\<close>

definition med_apart :: "parameter \<Rightarrow> bool" where
  "med_apart p = (case p_med p of PRef a \<Rightarrow> p_avg p \<noteq> PRef a \<and> p_std p \<noteq> PRef a | _ \<Rightarrow> True)"

text \<open>
  Two stores are similar up to the objects \<open>v1\<close> and \<open>v2\<close>: every subscript fails in
  one exactly as in the other, and every subscript of another value reads the same.
\<close>

definition similar :: "store \<Rightarrow> store \<Rightarrow> pyval \<Rightarrow> pyval \<Rightarrow> bool" where
  "similar st st' v1 v2 \<longleftrightarrow>
     (\<forall>w j e. getitem st' w j = Inl e \<longleftrightarrow> getitem st w j = Inl e)
     \<and> (\<forall>w j. w \<noteq> v1 \<longrightarrow> w \<noteq> v2 \<longrightarrow> getitem st' w j = getitem st w j)"

text \<open>
  The frame of a call: the value, the median attribute and \<^verbatim>\<open>_mult_bands\<close> are kept,
  the average is not \<^verbatim>\<open>None\<close>; with bands, the average and the std stay the same
  objects and only they are assigned into; without, the store is kept and a new average
  or std is a plain value.
\<close>

definition frame :: "parameter \<Rightarrow> parameter \<Rightarrow> bool" where
  "frame p p' \<longleftrightarrow>
     p_val p' = p_val p \<and> p_med p' = p_med p \<and> mult_bands p' = mult_bands p
     \<and> p_avg p \<noteq> PNone \<and> p_avg p' \<noteq> PNone
     \<and> (mult_bands p = Some True \<longrightarrow>
           p_avg p' = p_avg p \<and> p_std p' = p_std p
           \<and> similar (objs p) (objs p') (p_avg p) (p_std p))
     \<and> (mult_bands p \<noteq> Some True \<longrightarrow>
           objs p' = objs p
           \<and> (p_avg p' = p_avg p \<or> (\<forall>a. p_avg p' \<noteq> PRef a))
           \<and> (p_std p' = p_std p \<or> (\<forall>a. p_std p' \<noteq> PRef a)))"

subsection \<open>Five significant figures, in the words of the specification\<close>

text \<open>
  The specification has \<^verbatim>\<open>change\<close> commit a number only if it "differs from the stored
  value at 5-significant-figure precision". Written out: a number \<open>x\<close> other than 0
  lies in one decade, \<open>10\<^sup>e \<le> |x| < 10\<^sup>e\<^sup>+\<^sup>1\<close>, and with five significant figures it is
  the multiple \<open>k \<sqdot> 10\<^sup>e\<^sup>-\<^sup>4\<close> nearest to it, the one with the even \<open>k\<close> when two are
  equally near; 0 is 0. These definitions follow that wording, with neither the
  logarithm nor the rounding of \<^verbatim>\<open>_sig_figs\<close>, and are what the source is compared with.
\<close>

definition pow10 :: "int \<Rightarrow> real" where
  "pow10 e = (if 0 \<le> e then 10 ^ nat e else 1 / 10 ^ nat (- e))"

definition five_figures :: "real \<Rightarrow> int \<Rightarrow> int \<Rightarrow> bool" where
  "five_figures x k e \<longleftrightarrow>
     (if x = 0 then k = 0 else pow10 e \<le> \<bar>x\<bar> \<and> \<bar>x\<bar> < pow10 (e + 1))
     \<and> \<bar>x / pow10 (e - 4) - of_int k\<bar> \<le> 1 / 2
     \<and> (\<bar>x / pow10 (e - 4) - of_int k\<bar> = 1 / 2 \<longrightarrow> even k)"

definition figures_value :: "int \<Rightarrow> int \<Rightarrow> real" where
  "figures_value k e = of_int k * pow10 (e - 4)"

subsection \<open>The builtins on the literals of the examples\<close>

text \<open>
  What Python returns on the literals that the examples below use, as tables:
  \<^verbatim>\<open>int('5')\<close> is 5, \<^verbatim>\<open>float('1.0 ')\<close> is 1.0,
  \<^verbatim>\<open>np.array(eval('[1.0, 2.0]')).astype(float)\<close> is the array of 1.0 and 2.0, and so on;
  \<^verbatim>\<open>float\<close> raises \<^verbatim>\<open>ValueError\<close> and \<^verbatim>\<open>eval\<close> raises \<^verbatim>\<open>NameError\<close> on \<^verbatim>\<open>'NA'\<close>. The
  random source of the examples draws 3.0 every time. The examples use no argument
  outside the tables.
\<close>

definition example_builtins :: builtins where
  "example_builtins =
     \<lparr>py_int = map_of [(''5'', 5)],
      py_float = map_of [(''1.0'', 1), (''1.0 '', 1), ('' 2.0'', 2), ('' 0.5'', 1 / 2)],
      np_array_eval = map_of [(''[1.0, 2.0]'', [1, 2]), (''[1.0, 2.0] '', [1, 2]), ('' [0.1]'', [1 / 10])],
      py_eval = (\<lambda>s. case map_of [(''[1, 2]'', PList [PInt 1, PInt 2])] s of
                   Some v \<Rightarrow> Inr v | None \<Rightarrow> Inl NameError),
      py_eval_pdf = (\<lambda>s. case map_of [(''[1.0, 2.0]'', PList [PFloat 1, PFloat 2]),
                                      (''[1.0, 2.0] '', PList [PFloat 1, PFloat 2]),
                                      ('' [0.1]'', PList [PFloat (1 / 10)])] s of
                   Some v \<Rightarrow> Inr v | None \<Rightarrow> Inl NameError),
      py_str = (\<lambda>v. []),
      np_random_normal = (\<lambda>avg std n. if n < 0 then Inl ValueError else Inr (replicate (nat n) 3)),
      dist_sample = (\<lambda>d n. PFloat (dist_mean d))\<rparr>"

section \<open>Properties of the sensitivity engine\<close>

subsection \<open>The count of sky-side elements\<close>

lemma upper_SPACE: "upper ''Space'' = ''SPACE''"
  by (simp add: upper_def upper_char_def)

lemma upper_Atacama: "upper ''Atacama'' \<noteq> ''SPACE''"
  by (simp add: upper_def upper_char_def)

text \<open>
  C1 (as stated): the count of sky-side elements is 1 or 2 on the ground and 3 or 4 in
  space. The code disagrees: a ground site with foreground layering has 4 sky-side
  elements, and a space site without it has 1.
\<close>

theorem C1_counterexample:
  "num_sky_elem \<lparr>site = ''Atacama'', infg = True, ch_ndet = 1, ch_yield = 1\<rparr> \<notin> {1, 2}
   \<and> num_sky_elem \<lparr>site = ''Space'', infg = False, ch_ndet = 1, ch_yield = 1\<rparr> \<notin> {3, 4}"
  using upper_Atacama upper_SPACE by (simp add: num_sky_elem_def)

text \<open>
  C1 (amended): the count of sky-side elements is 1 or 3 when the site is space and 2 or
  4 otherwise (ground); the larger count of each pair applies exactly when foreground
  layering is enabled, and the count is where \<^verbatim>\<open>_calc_rj_temp\<close> cuts a chain into its
  sky and telescope parts.
\<close>

theorem C1_num_sky_elem:
  "(upper (site ch) = ''SPACE'' \<longrightarrow> num_sky_elem ch \<in> {1, 3} \<and> (num_sky_elem ch = 3 \<longleftrightarrow> infg ch))
   \<and> (upper (site ch) \<noteq> ''SPACE'' \<longrightarrow> num_sky_elem ch \<in> {2, 4} \<and> (num_sky_elem ch = 4 \<longleftrightarrow> infg ch))
   \<and> sky_side ch xs @ tel_side ch xs = xs
   \<and> length (sky_side ch xs) = min (length xs) (num_sky_elem ch)"
  by (simp add: num_sky_elem_def sky_side_def tel_side_def)

text \<open>A space site without foreground layering and a ground site with it.\<close>

theorem C1_num_sky_elem_witness:
  "upper (site \<lparr>site = ''Space'', infg = False, ch_ndet = 1, ch_yield = 1\<rparr>) = ''SPACE''
   \<and> num_sky_elem \<lparr>site = ''Space'', infg = False, ch_ndet = 1, ch_yield = 1\<rparr> = 1
   \<and> upper (site \<lparr>site = ''Atacama'', infg = True, ch_ndet = 1, ch_yield = 1\<rparr>) \<noteq> ''SPACE''
   \<and> num_sky_elem \<lparr>site = ''Atacama'', infg = True, ch_ndet = 1, ch_yield = 1\<rparr> = 4
   \<and> sky_side \<lparr>site = ''Atacama'', infg = True, ch_ndet = 1, ch_yield = 1\<rparr> ''abcdef'' = ''abcd''"
  using C1_num_sky_elem [of "\<lparr>site = ''Space'', infg = False, ch_ndet = 1, ch_yield = 1\<rparr>" "''abcdef''"]
    C1_num_sky_elem [of "\<lparr>site = ''Atacama'', infg = True, ch_ndet = 1, ch_yield = 1\<rparr>" "''abcdef''"]
    upper_SPACE upper_Atacama
  by (simp add: sky_side_def num_sky_elem_def)

subsection \<open>The cascade efficiencies\<close>

lemma length_mul_rows: "length x = n \<Longrightarrow> length y = n \<Longrightarrow> length (mul_rows x y) = n"
  by (simp add: mul_rows_def)

lemma nth_mul_rows: "f < length x \<Longrightarrow> f < length y \<Longrightarrow> mul_rows x y ! f = x ! f * y ! f"
  by (simp add: mul_rows_def)

lemma foldl_mul_rows:
  "length r = n \<Longrightarrow> list_all (\<lambda>x. length x = n) rs \<Longrightarrow>
   foldl mul_rows r rs = map (\<lambda>f. prod_list (map (\<lambda>x. x ! f) (r # rs))) [0..<n]"
proof (induction rs arbitrary: r)
  case Nil
  then show ?case by (auto intro: nth_equalityI)
next
  case (Cons x rs)
  have lx: "length x = n" and rest: "list_all (\<lambda>x. length x = n) rs"
    using Cons.prems(2) by simp_all
  have "foldl mul_rows (mul_rows r x) rs =
        map (\<lambda>f. prod_list (map (\<lambda>x. x ! f) (mul_rows r x # rs))) [0..<n]"
    using Cons.IH [OF length_mul_rows [OF Cons.prems(1) lx] rest] .
  also have "\<dots> = map (\<lambda>f. prod_list (map (\<lambda>x. x ! f) (r # x # rs))) [0..<n]"
    using Cons.prems(1) lx by (simp add: nth_mul_rows mult.assoc)
  finally show ?case by simp
qed

lemma cum_eff_det_prod:
  assumes rows: "list_all (\<lambda>r. length r = length freqs) tran" and k: "k < length tran"
  shows "cum_eff_det (tran @ [ones_row freqs]) k =
         Inr (map (\<lambda>f. prod_list (map (\<lambda>r. r ! f) (drop (Suc k) (tran @ [ones_row freqs])))) [0..<length freqs])"
proof -
  let ?eff = "tran @ [ones_row freqs]"
  have all: "list_all (\<lambda>r. length r = length freqs) ?eff"
    using rows by (simp add: ones_row_def)
  obtain r rs where d: "drop (Suc k) ?eff = r # rs"
    using k by (cases "drop (Suc k) ?eff") auto
  have "list_all (\<lambda>r. length r = length freqs) (drop (Suc k) ?eff)"
    using all by (metis append_take_drop_id list_all_append)
  then have "list_all (\<lambda>r. length r = length freqs) (r # rs)"
    unfolding d .
  then have "length r = length freqs" "list_all (\<lambda>x. length x = length freqs) rs"
    by simp_all
  then show ?thesis
    using foldl_mul_rows [of r "length freqs" rs] unfolding cum_eff_det_def Suc_eq_plus1 [symmetric] d
    by simp
qed

lemma collect_all_ok:
  "(\<And>r. r \<in> set rs \<Longrightarrow> \<exists>v. r = Inr v) \<Longrightarrow> \<exists>vs. collect rs = Inr vs"
proof (induction rs)
  case Nil
  then show ?case by simp
next
  case (Cons r rs)
  obtain v where "r = Inr v" using Cons.prems [of r] by auto
  moreover obtain vs where "collect rs = Inr vs" using Cons by auto
  ultimately show ?case by (simp add: on_ok_def)
qed

lemma reduce_mul_ok: "rows \<noteq> [] \<Longrightarrow> \<exists>v. reduce_mul rows = Inr v"
  by (cases rows) simp_all

lemma cum_eff_sky_ok:
  assumes "k < length eff_arr"
  shows "\<exists>s. cum_eff_sky eff_arr freqs k = Inr s"
proof -
  have "\<exists>vs. collect (map (\<lambda>m. if m < k - 2 then reduce_mul (slice eff_arr (m + 1) k)
                            else item eff_arr (m + 1)) [0..<k - 1]) = Inr vs"
  proof (rule collect_all_ok)
    fix r
    assume "r \<in> set (map (\<lambda>m. if m < k - 2 then reduce_mul (slice eff_arr (m + 1) k)
                            else item eff_arr (m + 1)) [0..<k - 1])"
    then obtain m where m: "m < k - 1"
      and r: "r = (if m < k - 2 then reduce_mul (slice eff_arr (m + 1) k) else item eff_arr (m + 1))"
      by auto
    show "\<exists>v. r = Inr v"
    proof (cases "m < k - 2")
      case True
      then have "slice eff_arr (m + 1) k \<noteq> []"
        using assms by (auto simp: slice_def)
      then show ?thesis using r True reduce_mul_ok by simp
    next
      case False
      then show ?thesis using r m assms by (simp add: item_def)
    qed
  qed
  then show ?thesis by (auto simp: cum_eff_sky_def on_ok_def)
qed

lemma elem_eff_ok:
  assumes rows: "list_all (\<lambda>r. length r = length freqs) tran" and k: "k < length tran"
  shows "\<exists>sky. elem_eff tran freqs k =
            Inr (map (\<lambda>f. prod_list (map (\<lambda>r. r ! f) (drop (Suc k) (tran @ [ones_row freqs]))))
                   [0..<length freqs], sky)
           \<and> (k = 0 \<longrightarrow> sky = [zeros_row freqs])"
proof -
  have v: "vstack_ones tran freqs = Inr (tran @ [ones_row freqs])"
    using rows by (simp add: vstack_ones_def)
  note d = cum_eff_det_prod [OF rows k]
  obtain s where s: "cum_eff_sky (tran @ [ones_row freqs]) freqs k = Inr s"
    using cum_eff_sky_ok [of k "tran @ [ones_row freqs]" freqs] k by auto
  have "k = 0 \<Longrightarrow> s = [zeros_row freqs]"
    using s by (simp add: cum_eff_sky_def)
  then show ?thesis
    using v d s by (simp add: elem_eff_def on_ok_def)
qed

lemma elem_eff_toy_chain:
  "elem_eff [map (\<lambda>f. 0.9) freqs, map (\<lambda>f. 0.8) freqs, map (\<lambda>f. 1) freqs] freqs 0
     = Inr (map (\<lambda>f. 0.8) freqs, [zeros_row freqs])"
  using elem_eff_ok [of freqs "[map (\<lambda>f. 0.9) freqs, map (\<lambda>f. 0.8) freqs, map (\<lambda>f. 1) freqs]" 0]
  by (auto simp: ones_row_def intro!: nth_equalityI)

text \<open>
  C2: for a chain \<open>tran\<close> of \<open>L\<close> rows over the frequency grid, buffered with a terminal
  row of ones at index \<open>L\<close>, the efficiency of element \<open>k < L\<close> toward the detector is,
  at every frequency, the product of the transmissions of the rows \<open>k+1..L\<close> (the
  terminal included); the efficiency of element 0 toward the sky is the single row of
  zeros, for every chain; and for the chain of uniform transmissions 0.9, 0.8, 1.0
  element 0 has efficiency 0.8 toward the detector.
\<close>

theorem C2_cascade_efficiency:
  assumes rows: "list_all (\<lambda>r. length r = length freqs) tran" and k: "k < length tran"
  shows "(\<exists>sky. elem_eff tran freqs k =
            Inr (map (\<lambda>f. prod_list (map (\<lambda>r. r ! f) (drop (Suc k) (tran @ [ones_row freqs]))))
                   [0..<length freqs], sky)
           \<and> (k = 0 \<longrightarrow> sky = [zeros_row freqs]))
         \<and> elem_eff [map (\<lambda>f. 0.9) freqs, map (\<lambda>f. 0.8) freqs, map (\<lambda>f. 1) freqs] freqs 0
             = Inr (map (\<lambda>f. 0.8) freqs, [zeros_row freqs])"
  using elem_eff_ok [OF rows k] elem_eff_toy_chain [of freqs] by blast

text \<open>The toy chain over a grid of two frequencies.\<close>

theorem C2_cascade_efficiency_witness:
  "list_all (\<lambda>r. length r = length [90, 150 :: real]) [[0.9, 0.9], [0.8, 0.8], [1, 1]]
   \<and> (0::nat) < length [[0.9, 0.9], [0.8, 0.8], [1, 1 :: real]]
   \<and> elem_eff [[0.9, 0.9], [0.8, 0.8], [1, 1]] [90, 150] 0 = Inr ([0.8, 0.8], [[0, 0]])"
  using C2_cascade_efficiency [of "[90, 150]" "[[0.9, 0.9], [0.8, 0.8], [1, 1]]" 0]
  by (simp add: ones_row_def zeros_row_def upt_rec)

subsection \<open>The array NET and the correlation degradation\<close>

lemma calc_NET_arr_RJ_frame:
  "calc_NET_arr_RJ f ch s = Inr s' \<Longrightarrow> NET_arr_RJ s' = NET_arr_RJ s \<and> NET_arr s' \<noteq> None"
  by (auto simp: calc_NET_arr_RJ_def on_ok_def split: sum.splits)

text \<open>
  C3 (the code departs from it): the array NET and the RJ array NET are meant to be two
  stored outputs. In the source the RJ step assigns the attribute of the plain array
  NET: after both steps \<^verbatim>\<open>_NET_arr\<close> holds the RJ value (computed from
  \<^verbatim>\<open>_NET_corr_RJ\<close>, here 3) and \<^verbatim>\<open>_NET_arr_RJ\<close> has never been assigned.
\<close>

theorem C3_NET_arr_overwritten:
  "on_ok (calc_NET_arr f ch
       \<lparr>nobs = 1, ndet = 1, NET = Some [[2]], NET_corr = Some [[2]], NET_corr_RJ = Some [[3]],
        NET_arr = None, NET_arr_RJ = None, corr_deg = None, map_depth = None,
        map_depth_RJ = None\<rparr>) (calc_NET_arr_RJ f ch)
   = Inr \<lparr>nobs = 1, ndet = 1, NET = Some [[2]], NET_corr = Some [[2]], NET_corr_RJ = Some [[3]],
        NET_arr = Some [[f 3 (ch_ndet ch) (ch_yield ch)]], NET_arr_RJ = None, corr_deg = None,
        map_depth = None, map_depth_RJ = None\<rparr>"
  by (simp add: calc_NET_arr_def calc_NET_arr_RJ_def on_ok_def py_range_def attr_def item_def)

text \<open>
  C8 (the code departs from it): the correlation degradation at \<open>[i][j]\<close> is meant to be
  \<^verbatim>\<open>NET_corr[i][j] / NET[i][j]\<close>. In the source the step raises \<^verbatim>\<open>NameError\<close> as
  soon as there is one observation and one detector, since no loop binds \<^verbatim>\<open>j\<close>; the
  quotient 3 / 2 of the example is never stored.
\<close>

theorem C8_corr_deg_raises:
  "calc_corr_deg
       \<lparr>nobs = 1, ndet = 1, NET = Some [[2]], NET_corr = Some [[3]], NET_corr_RJ = Some [[3]],
        NET_arr = None, NET_arr_RJ = None, corr_deg = None, map_depth = None,
        map_depth_RJ = None\<rparr> = Inl NameError"
  by (simp add: calc_corr_deg_def corr_deg_elem_def on_ok_def py_range_def attr_def item_def lookup_name_def)

lemma calc_corr_deg_NameError:
  assumes "0 < nobs s" "0 < ndet s" "NET_corr s = Some a" "a \<noteq> []"
  shows "calc_corr_deg s = Inl NameError"
proof -
  obtain n where n: "nat (nobs s) = Suc n" using assms(1) by (cases "nat (nobs s)") auto
  obtain m where m: "nat (ndet s) = Suc m" using assms(2) by (cases "nat (ndet s)") auto
  have e: "corr_deg_elem s [(''i'', 0), (''i'', i)] = Inl NameError" for i
    using assms(3,4) by (simp add: corr_deg_elem_def on_ok_def attr_def lookup_name_def item_def)
  show ?thesis
    by (simp add: calc_corr_deg_def py_range_def n m upt_rec [of 0] e on_ok_def)
qed

text \<open>Hence the steps of \<^verbatim>\<open>_sensitivity\<close> do not reach the returned list.\<close>

lemma sensitivity_tail_raises:
  "sensitivity_tail f ch
       \<lparr>nobs = 1, ndet = 1, NET = Some [[2]], NET_corr = Some [[3]], NET_corr_RJ = Some [[3]],
        NET_arr = None, NET_arr_RJ = None, corr_deg = None, map_depth = None,
        map_depth_RJ = None\<rparr> = Inl NameError"
  by (simp add: sensitivity_tail_def calc_NET_arr_def calc_NET_arr_RJ_def calc_corr_deg_def corr_deg_elem_def on_ok_def py_range_def attr_def item_def lookup_name_def)
section \<open>Properties of Parameter\<close>

subsection \<open>Evaluation on the examples\<close>

text \<open>
  The constructor on the literals of the examples, and five significant figures of
  small numbers.
\<close>

lemmas store_defs = init_def new_parameter_def store_param_def store_bool_def store_int_def
  store_str_def store_list_def store_float_def store_float_str_def store_float_dist_def
  store_float_tuple_def float_conv_def zero_def py_len_def alloc_def check_range_def
  int_of_def str_of_def numbers_of_def as_number_def on_ok_def spread_delim_def float_str_vals_def
  strip_def capitalize_def upper_def lower_def upper_char_def lower_char_def is_space_def
  float_of_def dict_get_def moments_def has_PDF_def

lemmas read_defs = fetch_def no_avg_def get_med_def get_avg_def get_std_def is_empty_def getitem_def
  py_index_def index_of_def attr_def in_float_str_vals_def item_def

lemmas change_defs = change_def change_num_def change_str_def is_empty_def attr_def on_ok_def
  in_float_str_vals_def getitem_def setitem_def as_array_entry_def put_index_def py_index_def
  index_of_def to_SI_val_def as_number_def upper_of_def

lemma ex_int: "init example_builtins id None None KInt None (PStr ''5'') =
  Inr \<lparr>to_SI = id, p_min = None, p_max = None, p_type = KInt, band_ids = None,
        mult_bands = Some False, p_val = PNone, p_avg = PInt 5,
        p_med = PInt 5, p_std = PFloat 0, objs = []\<rparr>"
  by (simp add: store_defs example_builtins_def)

lemma ex_str: "init example_builtins id None None KStr None (PStr ''Atacama'') =
  Inr \<lparr>to_SI = id, p_min = None, p_max = None, p_type = KStr, band_ids = None,
        mult_bands = Some False, p_val = PStr ''Atacama'', p_avg = PNone,
        p_med = PNone, p_std = PNone, objs = []\<rparr>"
  by (simp add: store_defs example_builtins_def)

lemma ex_bool: "init example_builtins id None None KBool None (PStr ''tRue '') =
  Inr \<lparr>to_SI = id, p_min = None, p_max = None, p_type = KBool, band_ids = None,
        mult_bands = Some False, p_val = PBool True, p_avg = PNone,
        p_med = PNone, p_std = PNone, objs = []\<rparr>"
  by (simp add: store_defs example_builtins_def)

lemma ex_list: "init example_builtins id None None KList None (PStr ''[1, 2]'') =
  Inr \<lparr>to_SI = id, p_min = None, p_max = None, p_type = KList, band_ids = None,
        mult_bands = Some False, p_val = PList [PInt 1, PInt 2], p_avg = PNone,
        p_med = PNone, p_std = PNone, objs = []\<rparr>"
  by (simp add: store_defs example_builtins_def)

lemma ex_NA: "init example_builtins id None None KFloat None (PStr ''NA'') =
  Inr \<lparr>to_SI = id, p_min = None, p_max = None, p_type = KFloat,
        band_ids = None, mult_bands = Some False, p_val = PNone,
        p_avg = PStr ''NA'', p_med = PStr ''NA'', p_std = PRef 0,
        objs = [(NdArray, [PFloat 0, PFloat 0])]\<rparr>"
  by (simp add: store_defs example_builtins_def)


lemma ex_scalar: "init example_builtins id (Some 0) (Some 2) KFloat None (PStr ''1.0 +/- 2.0'') =
  Inr \<lparr>to_SI = id, p_min = Some 0, p_max = Some 2, p_type = KFloat,
        band_ids = None, mult_bands = Some False, p_val = PNone,
        p_avg = PFloat 1, p_med = PFloat 1, p_std = PFloat 2, objs = []\<rparr>"
  by (simp add: store_defs example_builtins_def)

lemma ex_bands: "init example_builtins id None None KFloat None (PStr ''[1.0, 2.0] +/- [0.1]'') =
   Inr \<lparr>to_SI = id, p_min = None, p_max = None, p_type = KFloat,
        band_ids = None, mult_bands = Some True, p_val = PNone,
        p_avg = PRef 0, p_med = PRef 0, p_std = PRef 1,
        objs = [(NdArray, [PFloat 1, PFloat 2]), (NdArray, [PFloat (1 / 10)])]\<rparr>"
  by (simp add: store_defs example_builtins_def)

lemma ex_bands0: "init example_builtins id None None KFloat None (PStr ''[1.0, 2.0]'') =
   Inr \<lparr>to_SI = id, p_min = None, p_max = None, p_type = KFloat,
        band_ids = None, mult_bands = Some True, p_val = PNone,
        p_avg = PRef 0, p_med = PRef 0, p_std = PRef 1,
        objs = [(NdArray, [PFloat 1, PFloat 2]), (NdArray, [PFloat 0, PFloat 0])]\<rparr>"
  by (simp add: store_defs example_builtins_def)

lemma ex_tuple: "init example_builtins id None None KFloat None
     (PTuple [PStr ''[1.0, 2.0] +/- [0.1]'', PDict []]) = Inl Fatal"
  by (simp add: store_defs example_builtins_def)

lemma ex_tuple0: "init example_builtins id None None KFloat None
     (PTuple [PStr ''[1.0, 2.0]'', PDict []]) =
   Inr \<lparr>to_SI = id, p_min = None, p_max = None, p_type = KFloat,
        band_ids = None, mult_bands = Some True, p_val = PRef 0,
        p_avg = PRef 1, p_med = PRef 2, p_std = PRef 3,
        objs = [(PyList, [PNone, PNone]), (PyList, [PFloat 1, PFloat 2]),
                (PyList, [PFloat 1, PFloat 2]), (PyList, [PFloat 0, PFloat 0])]\<rparr>"
  by (simp add: store_defs example_builtins_def)

lemma floor_log10_unit: "1 \<le> x \<Longrightarrow> x < 10 \<Longrightarrow> \<lfloor>log 10 x\<rfloor> = 0"
proof -
  assume a: "1 \<le> x" "x < 10"
  have "0 \<le> log 10 x" using a by simp
  moreover have "log 10 x < 1" using a by (simp add: log_less_iff)
  ultimately show ?thesis by (simp add: floor_eq_iff)
qed

lemma sig_figs_real_unit:
  "1 \<le> x \<Longrightarrow> x < 10 \<Longrightarrow> sig_figs_real x 5 = of_int (round_half_even (x * 10000)) / 10000"
  by (simp add: sig_figs_real_def floor_log10_unit py_round_def)

lemma sig_figs_5: "sig_figs_real 5 5 = 5" "sig_figs_real 1 5 = 1" "sig_figs_real 2 5 = 2" "sig_figs_real 7 5 = 7"
  by (simp_all add: sig_figs_real_unit round_half_even_def)

lemma sig5_differ_5_1: "sig5_differ 5 1" "sig5_differ 7 2"
  by (simp_all add: sig5_differ_def sig_figs_5)

lemma sig5_differ_more: "sig5_differ 7 5" "sig5_differ 5 2"
  by (simp_all add: sig5_differ_def sig_figs_5)

subsection \<open>\<^verbatim>\<open>fetch\<close> on a Parameter without an average\<close>

lemma check_range_no_avg: "p_avg p = PNone \<Longrightarrow> check_range p = Inr ()"
  by (simp add: check_range_def)

lemma init_KStr:
  "init b u mn mx KStr ids inp = Inr p \<Longrightarrow> p_val p = PStr (str_of b inp) \<and> p_avg p = PNone"
  by (auto simp: init_def new_parameter_def store_param_def store_str_def check_range_def on_ok_def)

lemma init_KBool:
  "init b u mn mx KBool ids inp = Inr p \<Longrightarrow> (\<exists>t. p_val p = PBool t) \<and> p_avg p = PNone"
  by (auto simp: init_def new_parameter_def store_param_def store_bool_def check_range_def
      on_ok_def Let_def split: pyval.splits if_splits)

lemma init_KList:
  "init b u mn mx KList ids inp = Inr p \<Longrightarrow> (\<exists>xs. p_val p = PList xs) \<and> p_avg p = PNone"
  by (auto simp: init_def new_parameter_def store_param_def store_list_def check_range_def
      on_ok_def split: pyval.splits sum.splits if_splits)

lemma init_KInt:
  "init b u mn mx KInt ids inp = Inr p \<Longrightarrow>
     \<exists>n. p_val p = PNone \<and> p_avg p = PInt n \<and> p_med p = PInt n \<and> p_std p = PFloat 0
         \<and> mult_bands p = Some False"
  by (auto simp: init_def new_parameter_def store_param_def store_int_def
      on_ok_def split: sum.splits if_splits)

lemma fetch_no_avg: "p_val p \<noteq> PNone \<Longrightarrow> p_avg p = PNone \<Longrightarrow> fetch p band_id = Inr (p_val p, p_val p, PStr ''NA'')"
  by (simp add: fetch_def no_avg_def)

text \<open>
  C4 (as stated): a Parameter of integer kind has no average, so \<^verbatim>\<open>fetch\<close> returns
  (value, value, "NA"). The code disagrees: \<^verbatim>\<open>_store_int\<close> stores the integer as the
  average and the median with std 0.0, and \<^verbatim>\<open>fetch\<close> returns those.
\<close>

theorem C4_counterexample:
  "on_ok (init example_builtins id None None KInt None (PStr ''5'')) (\<lambda>p. fetch p 1)
     = Inr (PInt 5, PInt 5, PFloat 0)"
  by (simp add: ex_int) (simp add: read_defs on_ok_def)

text \<open>
  C4 (amended): for every Parameter of string, list or boolean kind that the
  constructor returns, \<^verbatim>\<open>fetch(band_id)\<close> is (value, value, "NA") for every band id,
  the value not being \<^verbatim>\<open>None\<close>; for one of integer kind it is (n, n, 0.0) with \<open>n\<close>
  the stored integer.
\<close>

theorem C4_fetch_without_average:
  assumes "init b u mn mx k ids inp = Inr p"
  shows "(k = KStr \<or> k = KList \<or> k = KBool \<longrightarrow>
            fetch p band_id = Inr (p_val p, p_val p, PStr ''NA'') \<and> p_val p \<noteq> PNone)
         \<and> (k = KInt \<longrightarrow>
            fetch p band_id = Inr (p_avg p, p_avg p, PFloat 0) \<and> (\<exists>n. p_avg p = PInt n))"
proof -
  have "fetch p band_id = Inr (p_val p, p_val p, PStr ''NA'') \<and> p_val p \<noteq> PNone"
    if "k = KStr \<or> k = KList \<or> k = KBool"
    using that assms init_KStr [of b u mn mx ids inp p] init_KList [of b u mn mx ids inp p]
      init_KBool [of b u mn mx ids inp p]
    by (auto simp: fetch_no_avg)
  moreover have "fetch p band_id = Inr (p_avg p, p_avg p, PFloat 0) \<and> (\<exists>n. p_avg p = PInt n)"
    if "k = KInt"
    using that assms init_KInt [of b u mn mx ids inp p]
    by (auto simp: fetch_def no_avg_def attr_def on_ok_def)
  ultimately show ?thesis by blast
qed

text \<open>
  The four kinds at concrete inputs.
\<close>

theorem C4_fetch_without_average_witness:
  "on_ok (init example_builtins id None None KStr None (PStr ''Atacama'')) (\<lambda>p. fetch p 3)
     = Inr (PStr ''Atacama'', PStr ''Atacama'', PStr ''NA'')
   \<and> on_ok (init example_builtins id None None KBool None (PStr ''tRue '')) (\<lambda>p. fetch p 1)
     = Inr (PBool True, PBool True, PStr ''NA'')
   \<and> on_ok (init example_builtins id None None KList None (PStr ''[1, 2]'')) (\<lambda>p. fetch p 2)
     = Inr (PList [PInt 1, PInt 2], PList [PInt 1, PInt 2], PStr ''NA'')
   \<and> on_ok (init example_builtins id None None KInt None (PStr ''5'')) (\<lambda>p. fetch p 2)
     = Inr (PInt 5, PInt 5, PFloat 0)"
  using C4_fetch_without_average [OF ex_str, of 3] C4_fetch_without_average [OF ex_bool, of 1]
    C4_fetch_without_average [OF ex_list, of 2] C4_fetch_without_average [OF ex_int, of 2]
  by (simp add: ex_str ex_bool ex_list ex_int on_ok_def)

subsection \<open>Mean and std lists of different lengths\<close>

text \<open>
  C5 (the code departs from it): a per-band literal whose mean list and std list differ
  in length must be refused. Handed over as a string, \<^verbatim>\<open>"[1.0, 2.0] +/- [0.1]"\<close> is
  accepted: \<^verbatim>\<open>_store_float_str\<close> has no length check, and the Parameter holds two
  averages and one std. The same literal in a tuple with a distribution dictionary is
  refused by the check of \<^verbatim>\<open>_store_float_tuple\<close>.
\<close>

theorem C5_no_length_check:
  "init example_builtins id None None KFloat None (PStr ''[1.0, 2.0] +/- [0.1]'') =
     Inr \<lparr>to_SI = id, p_min = None, p_max = None, p_type = KFloat,
          band_ids = None, mult_bands = Some True, p_val = PNone,
          p_avg = PRef 0, p_med = PRef 0, p_std = PRef 1,
          objs = [(NdArray, [PFloat 1, PFloat 2]), (NdArray, [PFloat (1 / 10)])]\<rparr>
   \<and> init example_builtins id None None KFloat None
       (PTuple [PStr ''[1.0, 2.0] +/- [0.1]'', PDict []]) = Inl Fatal"
  using ex_bands ex_tuple by simp

subsection \<open>The sentinel \<^verbatim>\<open>"NA"\<close>\<close>

lemma init_NA:
  assumes "py_float b ''NA'' = None" and "np_array_eval b ''NA'' = None"
  shows "init b u mn mx KFloat ids (PStr ''NA'') =
     Inr \<lparr>to_SI = u, p_min = mn, p_max = mx, p_type = KFloat, band_ids = ids,
          mult_bands = Some False, p_val = PNone, p_avg = PStr ''NA'', p_med = PStr ''NA'',
          p_std = PRef 0, objs = [(NdArray, [PFloat 0, PFloat 0])]\<rparr>"
  using assms by (simp add: store_defs)

text \<open>
  C6 (as stated): every component that \<^verbatim>\<open>fetch\<close> returns is the string \<^verbatim>\<open>"NA"\<close>. The
  code disagrees: the std component is the array that \<^verbatim>\<open>_zero\<close> made, whose first
  entry is the number 0.0.
\<close>

theorem C6_counterexample:
  "on_ok (init example_builtins id None None KFloat None (PStr ''NA'')) (\<lambda>p. fetch p 1)
     = Inr (PStr ''NA'', PStr ''NA'', PRef 0)
   \<and> on_ok (init example_builtins id None None KFloat None (PStr ''NA''))
        (\<lambda>p. getitem (objs p) (PRef 0) 0) = Inr (PFloat 0)"
  by (simp add: ex_NA) (simp add: read_defs on_ok_def)

text \<open>
  C6 (amended): for a float-kind Parameter constructed from the literal \<^verbatim>\<open>"NA"\<close>
  (on which \<^verbatim>\<open>float\<close> and \<^verbatim>\<open>eval\<close> raise), the constructor returns, every call to
  \<^verbatim>\<open>sample\<close> returns the string \<^verbatim>\<open>"NA"\<close>, and every call to \<^verbatim>\<open>fetch\<close> returns
  \<^verbatim>\<open>"NA"\<close> as the average and as the median; the std component is an array whose
  entries are all zero, not the sentinel.
\<close>

theorem C6_sentinel_NA:
  assumes "py_float b ''NA'' = None" and "np_array_eval b ''NA'' = None"
  shows "\<exists>p. init b u mn mx KFloat ids (PStr ''NA'') = Inr p
     \<and> (\<forall>band_id nsample lo hi null.
           sample b p band_id nsample lo hi null = Inr (PStr ''NA''))
     \<and> (\<forall>band_id. \<exists>a. fetch p band_id = Inr (PStr ''NA'', PStr ''NA'', PRef a)
           \<and> a < length (objs p) \<and> fst (objs p ! a) = NdArray
           \<and> list_all (\<lambda>x. x = PFloat 0) (snd (objs p ! a)))"
proof -
  let ?p = "\<lparr>to_SI = u, p_min = mn, p_max = mx, p_type = KFloat, band_ids = ids,
          mult_bands = Some False, p_val = PNone, p_avg = PStr ''NA'', p_med = PStr ''NA'',
          p_std = PRef 0, objs = [(NdArray, [PFloat 0, PFloat 0])]\<rparr>"
  have e: "is_empty ?p 1 = Inr True"
    by (simp add: is_empty_def attr_def on_ok_def in_float_str_vals_def float_str_vals_def
        upper_def upper_char_def)
  have s: "sample b ?p band_id nsample lo hi null = Inr (PStr ''NA'')" for band_id nsample lo hi null
    by (simp add: sample_def e on_ok_def str_of_def strip_def is_space_def upper_def upper_char_def)
  have f: "fetch ?p band_id = Inr (PStr ''NA'', PStr ''NA'', PRef 0)" for band_id
    by (simp add: fetch_def no_avg_def attr_def on_ok_def)
  show ?thesis
    unfolding init_NA [OF assms] using s f by simp
qed

text \<open>
  The builtins of the examples raise on \<^verbatim>\<open>"NA"\<close>, and the Parameter built from it
  behaves as stated.
\<close>

theorem C6_sentinel_NA_witness:
  "py_float example_builtins ''NA'' = None \<and> np_array_eval example_builtins ''NA'' = None
   \<and> on_ok (init example_builtins id None None KFloat None (PStr ''NA''))
        (\<lambda>p. sample example_builtins p 2 10 None (Some 1) True) = Inr (PStr ''NA'')
   \<and> on_ok (init example_builtins id None None KFloat None (PStr ''NA''))
        (\<lambda>p. on_ok (fetch p 2) (\<lambda>(a, m, s). Inr (a, m))) = Inr (PStr ''NA'', PStr ''NA'')"
proof -
  have h: "py_float example_builtins ''NA'' = None" "np_array_eval example_builtins ''NA'' = None"
    by (simp_all add: example_builtins_def)
  obtain p where p: "init example_builtins id None None KFloat None (PStr ''NA'') = Inr p"
    and s: "sample example_builtins p 2 10 None (Some 1) True = Inr (PStr ''NA'')"
    and f: "\<exists>a. fetch p 2 = Inr (PStr ''NA'', PStr ''NA'', PRef a)"
    using C6_sentinel_NA [OF h, of id None None None] by blast
  show ?thesis using h p s f by (auto simp: on_ok_def)
qed

subsection \<open>Subscripts and assignments\<close>






lemma getitem_upd_other:
  "a' \<noteq> a \<Longrightarrow> getitem (st[a := ob]) (PRef a') j = getitem st (PRef a') j"
  by (simp add: getitem_def)

lemma getitem_not_ref:
  "(\<And>a. v \<noteq> PRef a) \<Longrightarrow> getitem st' v j = getitem st v j"
  by (cases v) (auto simp: getitem_def)

text \<open>An assignment into one object keeps every subscript's outcome kind.\<close>

lemma getitem_upd_status:
  assumes "a < length st"
  shows "(\<exists>x. getitem (st[a := (kd, (snd (st ! a))[k := y])]) v j = Inr x) = (\<exists>x. getitem st v j = Inr x)"
    and "getitem (st[a := (kd, (snd (st ! a))[k := y])]) v j = Inl e \<longleftrightarrow> getitem st v j = Inl e"
proof -
  have "(\<exists>x. getitem (st[a := (kd, (snd (st ! a))[k := y])]) v j = Inr x) = (\<exists>x. getitem st v j = Inr x)
    \<and> (getitem (st[a := (kd, (snd (st ! a))[k := y])]) v j = Inl e \<longleftrightarrow> getitem st v j = Inl e)"
  proof (cases v)
    case (PRef a')
    show ?thesis
    proof (cases "a' = a")
      case True
      then show ?thesis using assms PRef
        by (auto simp: getitem_def py_index_def split: option.splits)
    next
      case False
      then show ?thesis using PRef by (simp add: getitem_upd_other)
    qed
  qed (simp_all add: getitem_def)
  then show "(\<exists>x. getitem (st[a := (kd, (snd (st ! a))[k := y])]) v j = Inr x) = (\<exists>x. getitem st v j = Inr x)"
    and "getitem (st[a := (kd, (snd (st ! a))[k := y])]) v j = Inl e \<longleftrightarrow> getitem st v j = Inl e"
    by blast+
qed

lemma getitem_PNone: "getitem st PNone j = Inl TypeError"
  by (simp add: getitem_def)

lemma setitem_Inr:
  assumes "setitem st v i x = Inr st'"
  shows "\<exists>a k y. v = PRef a \<and> a < length st \<and> st' = st[a := (fst (st ! a), (snd (st ! a))[k := y])]"
proof (cases v)
  case (PRef a)
  then show ?thesis using assms
    by (auto simp: setitem_def put_index_def on_ok_def split: if_splits sum.splits option.splits)
qed (use assms in \<open>simp_all add: setitem_def\<close>)

subsection \<open>\<^verbatim>\<open>_sig_figs\<close> against five significant figures\<close>

text \<open>
  The rounding of \<^verbatim>\<open>_sig_figs(x, 5)\<close>, by the floor of the logarithm and \<^verbatim>\<open>round\<close>, is
  the number with five significant figures of the specification; every number has one.
\<close>

lemma pow10_pos: "0 < pow10 e"
  by (simp add: pow10_def)

lemma pow10_powr: "pow10 e = 10 powr (of_int e)"
  by (simp add: pow10_def powr_real_of_int divide_inverse)

lemma floor_log10_decade:
  assumes "pow10 e \<le> x" "x < pow10 (e + 1)"
  shows "\<lfloor>log 10 x\<rfloor> = e"
proof -
  have "0 < x" using assms(1) pow10_pos [of e] by linarith
  then show ?thesis
    using assms by (simp add: floor_log_eq_powr_iff pow10_powr)
qed

lemma round_half_even_nearest:
  assumes "\<bar>y - of_int k\<bar> \<le> 1 / 2" "\<bar>y - of_int k\<bar> = 1 / 2 \<longrightarrow> even k"
  shows "round_half_even y = k"
proof -
  consider "y - of_int k = 1 / 2" | "y - of_int k = - 1 / 2" | "\<bar>y - of_int k\<bar> < 1 / 2"
    using assms(1) by linarith
  then show ?thesis
  proof cases
    case 1
    then have f: "\<lfloor>y\<rfloor> = k" by linarith
    have "even k" using assms(2) 1 by simp
    then show ?thesis using 1 f by (simp add: round_half_even_def)
  next
    case 2
    then have f: "\<lfloor>y\<rfloor> = k - 1" by linarith
    have "even k" using assms(2) 2 by simp
    then show ?thesis using 2 f by (simp add: round_half_even_def)
  next
    case 3
    show ?thesis
    proof (cases "of_int k \<le> y")
      case True
      then have f: "\<lfloor>y\<rfloor> = k" using 3 by linarith
      then show ?thesis using 3 True by (simp add: round_half_even_def)
    next
      case False
      then have f: "\<lfloor>y\<rfloor> = k - 1" using 3 by linarith
      then show ?thesis using 3 False by (simp add: round_half_even_def)
    qed
  qed
qed

lemma round_half_even_is_nearest:
  "\<bar>y - of_int (round_half_even y)\<bar> \<le> 1 / 2
   \<and> (\<bar>y - of_int (round_half_even y)\<bar> = 1 / 2 \<longrightarrow> even (round_half_even y))"
  unfolding round_half_even_def by (auto; linarith)

lemma py_round_pow10:
  "py_round x n = of_int (round_half_even (x / pow10 (- n))) * pow10 (- n)"
  by (simp add: py_round_def pow10_def)

lemma sig_figs_real_five:
  assumes "five_figures x k e"
  shows "sig_figs_real x 5 = figures_value k e"
proof (cases "x = 0")
  case True
  then show ?thesis using assms by (simp add: five_figures_def sig_figs_real_def figures_value_def)
next
  case False
  then have d: "pow10 e \<le> \<bar>x\<bar>" "\<bar>x\<bar> < pow10 (e + 1)"
    and n: "\<bar>x / pow10 (e - 4) - of_int k\<bar> \<le> 1 / 2"
    and t: "\<bar>x / pow10 (e - 4) - of_int k\<bar> = 1 / 2 \<longrightarrow> even k"
    using assms by (simp_all add: five_figures_def)
  have f: "\<lfloor>log 10 \<bar>x\<bar>\<rfloor> = e" by (rule floor_log10_decade [OF d])
  have r: "round_half_even (x / pow10 (e - 4)) = k" by (rule round_half_even_nearest [OF n t])
  show ?thesis
    using False by (simp add: sig_figs_real_def f py_round_pow10 r figures_value_def)
qed

lemma five_figures_exists: "\<exists>k e. five_figures x k e"
proof (cases "x = 0")
  case True
  then show ?thesis by (simp add: five_figures_def)
next
  case False
  define e where "e = \<lfloor>log 10 \<bar>x\<bar>\<rfloor>"
  have "pow10 e \<le> \<bar>x\<bar> \<and> \<bar>x\<bar> < pow10 (e + 1)"
    using False floor_log_eq_powr_iff [of "\<bar>x\<bar>" 10 e] by (simp add: e_def pow10_powr)
  then have "five_figures x (round_half_even (x / pow10 (e - 4))) e"
    using False round_half_even_is_nearest [of "x / pow10 (e - 4)"] by (simp add: five_figures_def)
  then show ?thesis by blast
qed

lemma sig5_differ_figures:
  "five_figures x k e \<Longrightarrow> five_figures y k' e' \<Longrightarrow>
     sig5_differ x y = (figures_value k e \<noteq> figures_value k' e')"
  by (simp add: sig5_differ_def sig_figs_real_five)



text \<open>
  The width of the dead band: two numbers that do not differ at five significant
  figures are within half a part in ten thousand of each of them.
\<close>

lemma pow10_split: "pow10 e = 10000 * pow10 (e - 4)"
proof -
  have "pow10 e = 10 powr (of_int (e - 4) + 4)" by (simp add: pow10_powr)
  also have "\<dots> = 10 powr (of_int (e - 4)) * 10 powr 4" by (simp only: powr_add)
  finally show ?thesis by (simp add: pow10_powr)
qed

lemma five_figures_near:
  assumes "five_figures x k e"
  shows "\<bar>x - figures_value k e\<bar> \<le> \<bar>x\<bar> / 20000"
proof (cases "x = 0")
  case True
  then show ?thesis using assms by (simp add: five_figures_def figures_value_def)
next
  case False
  let ?u = "pow10 (e - 4)"
  have u: "0 < ?u" by (rule pow10_pos)
  have d: "pow10 e \<le> \<bar>x\<bar>" and n: "\<bar>x / ?u - of_int k\<bar> \<le> 1 / 2"
    using assms False by (simp_all add: five_figures_def)
  have "x - figures_value k e = (x / ?u - of_int k) * ?u"
    using u by (simp add: figures_value_def field_simps)
  then have "\<bar>x - figures_value k e\<bar> = \<bar>x / ?u - of_int k\<bar> * ?u"
    using u by (simp add: abs_mult)
  also have "\<dots> \<le> (1 / 2) * ?u" using n u by (simp add: mult_right_mono)
  also have "\<dots> = pow10 e / 20000" using pow10_split [of e] by simp
  also have "\<dots> \<le> \<bar>x\<bar> / 20000" using d by simp
  finally show ?thesis .
qed

lemma dead_band_width:
  assumes "\<not> sig5_differ x y"
  shows "\<bar>x - y\<bar> \<le> (\<bar>x\<bar> + \<bar>y\<bar>) / 20000"
proof -
  obtain k e where x: "five_figures x k e" using five_figures_exists by blast
  obtain k' e' where y: "five_figures y k' e'" using five_figures_exists by blast
  have eq: "figures_value k e = figures_value k' e'"
    using assms sig5_differ_figures [OF x y] by simp
  have "\<bar>x - y\<bar> \<le> \<bar>x - figures_value k e\<bar> + \<bar>y - figures_value k' e'\<bar>"
    using eq by linarith
  also have "\<dots> \<le> \<bar>x\<bar> / 20000 + \<bar>y\<bar> / 20000"
    by (rule add_mono [OF five_figures_near [OF x] five_figures_near [OF y]])
  finally show ?thesis by (simp add: add_divide_distrib)
qed

subsection \<open>\<^verbatim>\<open>change\<close> on a number\<close>

lemma differs_5_float [simp]: "differs_5 st x (PFloat y) = Inr (sig5_differ x y)"
  by (simp add: differs_5_def sig_figs_def as_number_def on_ok_def sig5_differ_def)

lemma sig5_differ_refl [simp]: "\<not> sig5_differ x x"
  by (simp add: sig5_differ_def)



lemma std_step_eq:
  "(if ds then on_ok X (\<lambda>st. Inr (True, f st)) else Inr (d, q))
     = on_ok (if ds then on_ok X (\<lambda>st. Inr (f st)) else Inr q) (\<lambda>q'. Inr (d \<or> ds, q'))"
  by (cases ds; cases X) (simp_all add: on_ok_def)














subsection \<open>\<^verbatim>\<open>sample\<close> with a bound\<close>

text \<open>
  C9: for a band that is not a sentinel and not backed by a distribution, with numeric
  average \<open>a\<close> and std \<open>s > 0\<close>, and with a bound present (passed to the call or stored
  at construction), \<^verbatim>\<open>sample\<close> raises \<^verbatim>\<open>ValueError\<close> for every \<open>nsample > 1\<close> (the
  branch condition \<^verbatim>\<open>samp < min\<close> is an array), and for \<open>nsample = 1\<close> returns min
  when the draw is below min, else max when the draw is above max, else the draw.
  \<open>draws\<close> is what the random source hands out.
\<close>

theorem C9_sample_clamp:
  assumes "is_empty p 1 = Inr False"
    and "\<not> no_avg p"
    and "\<And>d. p_val p \<noteq> PDist d"
    and "fetch p band_id = Inr (PFloat a, m, PFloat s)"
    and "0 < s"
    and "np_random_normal b (if null then PFloat 0 else PFloat a) (PFloat s) nsample = Inr draws"
    and "length draws = nat nsample"
    and "lo = (case min_arg of None \<Rightarrow> p_min p | Some v \<Rightarrow> Some v)"
    and "hi = (case max_arg of None \<Rightarrow> p_max p | Some v \<Rightarrow> Some v)"
    and "lo \<noteq> None \<or> hi \<noteq> None"
  shows "(1 < nsample \<longrightarrow> sample b p band_id nsample min_arg max_arg null = Inl ValueError)
       \<and> (nsample = 1 \<longrightarrow> sample b p band_id nsample min_arg max_arg null =
             Inr (PFloat (if lo \<noteq> None \<and> hd draws < the lo then the lo
                          else if hi \<noteq> None \<and> the hi < hd draws then the hi
                          else hd draws)))"
proof -
  have fixed: "any_nonpositive (objs p) (PFloat s) = Inr False"
    using assms(5) by (simp add: any_nonpositive_def numbers_of_def as_number_def on_ok_def)
  have nd: "(case p_val p of PDist d \<Rightarrow> X d | _ \<Rightarrow> Y) = Y"
    for X :: "distribution \<Rightarrow> py_error + pyval" and Y
    using assms(3) by (cases "p_val p") auto
  have body: "sample b p band_id nsample min_arg max_arg null =
      (if nsample = 1 then on_ok (item draws 0) (\<lambda>samp. Inr (clamp_scalar lo hi samp))
       else clamp_array lo hi draws)"
    using assms(1,2,4,6,8,9) fixed
    by (cases null) (simp_all add: sample_def Let_def on_ok_def nd)
  have many: "clamp_array lo hi draws = Inl ValueError" if "1 < nsample"
  proof -
    have "2 \<le> length draws" using that assms(7) by simp
    then obtain d1 d2 ds where d: "draws = d1 # d2 # ds"
      by (cases draws; cases "tl draws") auto
    show ?thesis
      using assms(10) by (auto simp: clamp_array_def array_truth_def d on_ok_def split: option.splits)
  qed
  have one: "on_ok (item draws 0) (\<lambda>samp. Inr (clamp_scalar lo hi samp)) =
             Inr (clamp_scalar lo hi (hd draws))" if "nsample = 1"
    using that assms(7) by (cases draws) (auto simp: item_def on_ok_def)
  show ?thesis
    using body many one by (auto simp: clamp_scalar_def)
qed

text \<open>
  A Parameter \<^verbatim>\<open>"1.0 +/- 2.0"\<close> with stored bounds 0 and 2 and a source that draws 3.0:
  three samples raise, one sample is clamped to the stored max, and with \<^verbatim>\<open>min=4\<close>
  passed to the call the draw 3.0 is raised to 4.
\<close>

theorem C9_sample_clamp_witness:
  "on_ok (init example_builtins id (Some 0) (Some 2) KFloat None (PStr ''1.0 +/- 2.0''))
      (\<lambda>p. sample example_builtins p 1 3 None None False) = Inl ValueError
   \<and> on_ok (init example_builtins id (Some 0) (Some 2) KFloat None (PStr ''1.0 +/- 2.0''))
      (\<lambda>p. sample example_builtins p 1 1 None None False) = Inr (PFloat 2)
   \<and> on_ok (init example_builtins id (Some 0) (Some 2) KFloat None (PStr ''1.0 +/- 2.0''))
      (\<lambda>p. sample example_builtins p 1 1 (Some 4) None True) = Inr (PFloat 4)"
proof -
  let ?p = "\<lparr>to_SI = id, p_min = Some 0, p_max = Some 2, p_type = KFloat,
        band_ids = None, mult_bands = Some False, p_val = PNone,
        p_avg = PFloat 1, p_med = PFloat 1, p_std = PFloat 2, objs = []\<rparr>"
  have e: "is_empty ?p 1 = Inr False" and n: "\<not> no_avg ?p" and d: "\<And>d. p_val ?p \<noteq> PDist d"
    and f: "fetch ?p 1 = Inr (PFloat 1, PFloat 1, PFloat 2)" and s: "(0::real) < 2"
    by (simp_all add: read_defs on_ok_def)
  have r3: "np_random_normal example_builtins (if False then PFloat 0 else PFloat 1) (PFloat 2) 3
              = Inr [3, 3, 3]"
    and r1: "np_random_normal example_builtins (if False then PFloat 0 else PFloat 1) (PFloat 2) 1
              = Inr [3]"
    and r0: "np_random_normal example_builtins (if True then PFloat 0 else PFloat 1) (PFloat 2) 1
              = Inr [3]"
    by (simp_all add: example_builtins_def numeral_3_eq_3)
  have a: "sample example_builtins ?p 1 3 None None False = Inl ValueError"
    using C9_sample_clamp [OF e n d f s r3, of "Some 0" None "Some 2" None] by simp
  have b: "sample example_builtins ?p 1 1 None None False = Inr (PFloat 2)"
    using C9_sample_clamp [OF e n d f s r1, of "Some 0" None "Some 2" None] by simp
  have c: "sample example_builtins ?p 1 1 (Some 4) None True = Inr (PFloat 4)"
    using C9_sample_clamp [OF e n d f s r0, of "Some 4" "Some 4" "Some 2" None] by simp
  show ?thesis using a b c by (simp add: ex_scalar on_ok_def)
qed

subsection \<open>The median under \<^verbatim>\<open>change\<close>\<close>

lemma similar_refl: "similar st st v1 v2"
  by (simp add: similar_def)

lemma similar_trans:
  "similar st st' v1 v2 \<Longrightarrow> similar st' st'' v1 v2 \<Longrightarrow> similar st st'' v1 v2"
  by (simp add: similar_def)

lemma setitem_similar:
  assumes "setitem st v i x = Inr st'" and "v = v1 \<or> v = v2"
  shows "similar st st' v1 v2"
proof -
  obtain a k y where v: "v = PRef a" and a: "a < length st"
    and st': "st' = st[a := (fst (st ! a), (snd (st ! a))[k := y])]"
    using setitem_Inr [OF assms(1)] by blast
  have "getitem st' w j = getitem st w j" if "w \<noteq> v" for w j
  proof (cases w)
    case (PRef a')
    then show ?thesis using that v st' by (simp add: getitem_upd_other)
  qed (simp_all add: getitem_def)
  then show ?thesis
    using getitem_upd_status(2) [OF a] assms(2) unfolding similar_def st' by blast
qed

lemma commit_step:
  assumes "(if d then on_ok (setitem (objs q) v i x) (\<lambda>st. Inr (q\<lparr>objs := st\<rparr>)) else Inr q) = Inr q'"
    and "v = v1 \<or> v = v2"
  shows "q' = q\<lparr>objs := objs q'\<rparr> \<and> similar (objs q) (objs q') v1 v2"
proof (cases d)
  case False
  then show ?thesis using assms by (simp add: similar_refl)
next
  case True
  then obtain st where st: "setitem (objs q) v i x = Inr st" and q': "q' = q\<lparr>objs := st\<rparr>"
    using assms(1) by (auto simp: on_ok_def split: sum.splits)
  show ?thesis using setitem_similar [OF st assms(2)] q' by simp
qed

lemma change_str_frame:
  assumes "change_str p s band_id = Inr (r, p')"
  shows "frame p p'"
proof -
  obtain mb where mb: "mult_bands p = Some mb"
    using assms by (cases "mult_bands p") (auto simp: change_str_def attr_def on_ok_def)
  show ?thesis
  proof (cases mb)
    case True
    then have m1: "mult_bands p = Some True" using mb by simp
    obtain cur u where g: "getitem (objs p) (p_avg p) (band_id - 1) = Inr cur"
      and u: "upper_of cur = Inr u"
      and rest: "(if u \<noteq> upper s
            then on_ok (setitem (objs p) (p_avg p) (band_id - 1) (PStr s)) (\<lambda>st.
                 Inr (True, p\<lparr>objs := st\<rparr>))
            else Inr (False, p)) = Inr (r, p')"
      using assms m1 by (auto simp: change_str_def attr_def on_ok_def split: sum.splits)
    have "(if u \<noteq> upper s
            then on_ok (setitem (objs p) (p_avg p) (band_id - 1) (PStr s)) (\<lambda>st. Inr (p\<lparr>objs := st\<rparr>))
            else Inr p) = Inr p'"
      using rest by (auto simp: on_ok_def split: if_splits sum.splits)
    then have fr: "p' = p\<lparr>objs := objs p'\<rparr>"
      and si: "similar (objs p) (objs p') (p_avg p) (p_std p)"
      using commit_step [where ?v1.0 = "p_avg p" and ?v2.0 = "p_std p"] by blast+
    have fields: "p_val p' = p_val p" "p_med p' = p_med p" "mult_bands p' = mult_bands p"
      "p_avg p' = p_avg p" "p_std p' = p_std p"
      by (subst fr, simp)+
    have "p_avg p \<noteq> PNone" using g by (auto simp: getitem_PNone)
    then show ?thesis unfolding frame_def using fields si m1 by simp
  next
    case False
    then have m0: "mult_bands p = Some False" using mb by simp
    then show ?thesis using assms
      by (auto simp: change_str_def attr_def on_ok_def frame_def upper_of_def
          split: sum.splits if_splits pyval.splits)
  qed
qed

lemma differs_5_PNone: "differs_5 st x PNone = Inl TypeError"
  by (simp add: differs_5_def sig_figs_def as_number_def on_ok_def)

lemma in_float_str_vals_PNone: "\<not> in_float_str_vals PNone"
  by (simp add: in_float_str_vals_def)

lemma frame_objs:
  assumes fr: "p' = p\<lparr>objs := objs p'\<rparr>" and si: "similar (objs p) (objs p') (p_avg p) (p_std p)"
    and av: "p_avg p \<noteq> PNone" and m1: "mult_bands p = Some True"
  shows "frame p p'"
proof -
  have fields: "p_val p' = p_val p" "p_med p' = p_med p" "mult_bands p' = mult_bands p"
    "p_avg p' = p_avg p" "p_std p' = p_std p"
    by (subst fr, simp)+
  show ?thesis unfolding frame_def using fields si m1 av by simp
qed

lemma change_num_frame:
  assumes c: "change_num p x new_std band_id = Inr (r, p')"
  shows "frame p p'"
proof -
  obtain empty where e: "is_empty p band_id = Inr empty"
    using c by (cases "is_empty p band_id") (auto simp: change_num_def on_ok_def)
  obtain mb where mb: "mult_bands p = Some mb"
    using e by (cases "mult_bands p") (auto simp: is_empty_def attr_def on_ok_def)
  have av: "p_avg p \<noteq> PNone"
  proof
    assume n: "p_avg p = PNone"
    show False
    proof (cases mb)
      case True
      then show ?thesis using e mb n by (simp add: is_empty_def attr_def on_ok_def getitem_PNone)
    next
      case False
      then have "empty = False"
        using e mb n by (simp add: is_empty_def attr_def on_ok_def in_float_str_vals_PNone)
      then show ?thesis using c e mb False n
        by (simp add: change_num_def attr_def on_ok_def differs_5_PNone)
    qed
  qed
  show ?thesis
  proof (cases mb)
    case False
    then have m0: "mult_bands p = Some False" using mb by simp
    show ?thesis
    proof (cases empty)
      case True
      then show ?thesis using c e m0 av
        by (auto simp: change_num_def attr_def on_ok_def frame_def)
    next
      case False
      then obtain d where d: "differs_5 (objs p) (to_SI p x) (p_avg p) = Inr d"
        using c e m0 by (cases "differs_5 (objs p) (to_SI p x) (p_avg p)")
          (auto simp: change_num_def attr_def on_ok_def)
      let ?p1 = "if d then p\<lparr>p_avg := PFloat (to_SI p x)\<rparr> else p"
      have f1: "frame p ?p1" using av m0 by (simp add: frame_def)
      have r: "(if new_std = PNone then Inr (d, ?p1)
            else on_ok (to_SI_val ?p1 new_std) (\<lambda>std_new.
                 on_ok (differs_5 (objs ?p1) std_new (p_std ?p1)) (\<lambda>ds.
                 if ds then Inr (True, ?p1\<lparr>p_std := PFloat std_new\<rparr>)
                 else Inr (d, ?p1)))) = Inr (r, p')"
        using c e m0 False d by (simp add: change_num_def attr_def on_ok_def)
      then have "p' = ?p1 \<or> (\<exists>z. p' = ?p1\<lparr>p_std := PFloat z\<rparr>)"
        by (auto simp: on_ok_def split: if_splits sum.splits)
      then show ?thesis using f1 m0 by (auto simp: frame_def)
    qed
  next
    case True
    then have m1: "mult_bands p = Some True" using mb by simp
    show ?thesis
    proof (cases empty)
      case True
      then obtain st where st: "setitem (objs p) (p_avg p) (band_id - 1) (PFloat (to_SI p x)) = Inr st"
        and p': "p' = p\<lparr>objs := st\<rparr>"
        using c e m1 by (auto simp: change_num_def attr_def on_ok_def split: sum.splits)
      have "similar (objs p) (objs p') (p_avg p) (p_std p)"
        using setitem_similar [OF st, of "p_avg p" "p_std p"] p' by simp
      then show ?thesis using p' av m1 by (intro frame_objs) simp_all
    next
      case False
      obtain cur d p1 where g: "getitem (objs p) (p_avg p) (band_id - 1) = Inr cur"
        and d: "differs_5 (objs p) (to_SI p x) cur = Inr d"
        and s1: "(if d then on_ok (setitem (objs p) (p_avg p) (band_id - 1) (PFloat (to_SI p x)))
                          (\<lambda>st. Inr (p\<lparr>objs := st\<rparr>))
                   else Inr p) = Inr p1"
        and r: "(if new_std = PNone then Inr (d, p1)
            else on_ok (to_SI_val p1 new_std) (\<lambda>std_new.
                 on_ok (getitem (objs p1) (p_std p1) (band_id - 1)) (\<lambda>cur_s.
                 on_ok (differs_5 (objs p1) std_new cur_s) (\<lambda>ds.
                 if ds
                 then on_ok (setitem (objs p1) (p_std p1) (band_id - 1) (PFloat std_new)) (\<lambda>st.
                      Inr (True, p1\<lparr>objs := st\<rparr>))
                 else Inr (d, p1))))) = Inr (r, p')"
        using c e m1 False
        by (simp add: change_num_def attr_def on_ok_def split: sum.splits)
      have fr1: "p1 = p\<lparr>objs := objs p1\<rparr>"
        and si1: "similar (objs p) (objs p1) (p_avg p) (p_std p)"
        using commit_step [OF s1, of "p_avg p" "p_std p"] by simp_all
      have fields1: "p_avg p1 = p_avg p" "p_std p1 = p_std p"
        by (subst fr1, simp)+
      have "\<exists>ds z. (if ds then on_ok (setitem (objs p1) (p_std p1) (band_id - 1) z)
                            (\<lambda>st. Inr (p1\<lparr>objs := st\<rparr>))
                     else Inr p1) = Inr p'"
      proof (cases "new_std = PNone")
        case True
        then have "p' = p1" using r by simp
        then show ?thesis by (intro exI [of _ False]) simp
      next
        case False
        then obtain std_new ds where
          "(if ds
            then on_ok (setitem (objs p1) (p_std p1) (band_id - 1) (PFloat std_new)) (\<lambda>st.
                   Inr (True, p1\<lparr>objs := st\<rparr>))
            else Inr (d, p1)) = Inr (r, p')"
          using r by (auto simp: on_ok_def split: sum.splits)
        then have "(if ds
            then on_ok (setitem (objs p1) (p_std p1) (band_id - 1) (PFloat std_new)) (\<lambda>st.
                   Inr (p1\<lparr>objs := st\<rparr>))
            else Inr p1) = Inr p'"
          by (auto simp: on_ok_def split: if_splits sum.splits)
        then show ?thesis by blast
      qed
      then obtain ds z where s2: "(if ds then on_ok (setitem (objs p1) (p_std p1) (band_id - 1) z)
                            (\<lambda>st. Inr (p1\<lparr>objs := st\<rparr>))
                     else Inr p1) = Inr p'"
        by blast
      have fr2: "p' = p1\<lparr>objs := objs p'\<rparr>"
        and si2: "similar (objs p1) (objs p') (p_avg p) (p_std p)"
        using commit_step [OF s2, of "p_avg p" "p_std p"] fields1 by simp_all
      have fr: "p' = p\<lparr>objs := objs p'\<rparr>"
        by (subst fr2, subst fr1, simp)
      show ?thesis
        using fr similar_trans [OF si1 si2] av m1 by (rule frame_objs)
    qed
  qed
qed

lemma change_frame:
  assumes "change p new_avg new_std band_id = Inr (r, p')"
  shows "frame p p'"
proof (cases new_avg)
  case (PStr s)
  then show ?thesis using assms change_str_frame by (simp add: change_def)
next
  case (PFloat x)
  then show ?thesis using assms change_num_frame by (simp add: change_def)
qed (use assms in \<open>simp_all add: change_def\<close>)

lemma sum_status:
  fixes A A' :: "py_error + 'a"
  assumes "\<And>e. A' = Inl e \<longleftrightarrow> A = Inl e"
  shows "(\<exists>e. A = Inl e \<and> A' = Inl e) \<or> (\<exists>a a'. A = Inr a \<and> A' = Inr a')"
  using assms by (cases A; cases A') auto

lemma frame_get_med:
  assumes fr: "frame p p'" and ap: "med_apart p"
  shows "get_med p' band_id = get_med p band_id" and "med_apart p'" and "p_med p' = p_med p"
proof -
  have na: "\<not> no_avg p" "\<not> no_avg p'" and mb: "mult_bands p' = mult_bands p"
    and md: "p_med p' = p_med p"
    using fr by (simp_all add: frame_def no_avg_def)
  show "p_med p' = p_med p" by (rule md)
  show "med_apart p'"
    using fr ap unfolding frame_def med_apart_def
    by (cases "mult_bands p = Some True") (auto split: pyval.splits)
  show "get_med p' band_id = get_med p band_id"
  proof (cases "mult_bands p")
    case None
    then show ?thesis using na mb by (simp add: get_med_def fetch_def attr_def on_ok_def)
  next
    case (Some b)
    show ?thesis
    proof (cases b)
      case False
      then show ?thesis using na mb md Some
        by (simp add: get_med_def fetch_def attr_def on_ok_def)
    next
      case True
      then have m1: "mult_bands p = Some True" "mult_bands p' = Some True" using Some mb by simp_all
      have av: "p_avg p' = p_avg p" and sd: "p_std p' = p_std p"
        and si: "similar (objs p) (objs p') (p_avg p) (p_std p)"
        using fr m1 by (simp_all add: frame_def)
      let ?i = "band_id - 1"
      have M: "getitem (objs p') (p_med p) ?i = getitem (objs p) (p_med p) ?i"
      proof (cases "\<exists>a. p_med p = PRef a")
        case True
        then have "p_med p \<noteq> p_avg p" "p_med p \<noteq> p_std p"
          using ap by (auto simp: med_apart_def)
        then show ?thesis using si by (simp add: similar_def)
      next
        case False
        then show ?thesis by (intro getitem_not_ref) simp
      qed
      have A: "(\<exists>e. getitem (objs p) (p_avg p) ?i = Inl e \<and> getitem (objs p') (p_avg p) ?i = Inl e)
          \<or> (\<exists>a a'. getitem (objs p) (p_avg p) ?i = Inr a \<and> getitem (objs p') (p_avg p) ?i = Inr a')"
        using si by (intro sum_status) (simp add: similar_def)
      have S: "(\<exists>e. getitem (objs p) (p_std p) ?i = Inl e \<and> getitem (objs p') (p_std p) ?i = Inl e)
          \<or> (\<exists>a a'. getitem (objs p) (p_std p) ?i = Inr a \<and> getitem (objs p') (p_std p) ?i = Inr a')"
        using si by (intro sum_status) (simp add: similar_def)
      have "get_med p band_id =
          on_ok (getitem (objs p) (p_avg p) ?i) (\<lambda>a.
          on_ok (getitem (objs p) (p_med p) ?i) (\<lambda>m.
          on_ok (getitem (objs p) (p_std p) ?i) (\<lambda>s. Inr m)))"
        using na m1 by (auto simp: get_med_def fetch_def attr_def on_ok_def split: sum.splits)
      moreover have "get_med p' band_id =
          on_ok (getitem (objs p') (p_avg p) ?i) (\<lambda>a.
          on_ok (getitem (objs p') (p_med p) ?i) (\<lambda>m.
          on_ok (getitem (objs p') (p_std p) ?i) (\<lambda>s. Inr m)))"
        using na m1 av sd md by (auto simp: get_med_def fetch_def attr_def on_ok_def split: sum.splits)
      ultimately show ?thesis
        using A S M by (auto simp: on_ok_def split: sum.splits)
    qed
  qed
qed

lemma changes_med:
  "med_apart p \<Longrightarrow> changes p cs = Inr p' \<Longrightarrow>
     get_med p' band_id = get_med p band_id \<and> p_med p' = p_med p \<and> med_apart p'"
proof (induction cs arbitrary: p)
  case Nil
  then show ?case by simp
next
  case (Cons c cs)
  obtain new_avg new_std b where c: "c = (new_avg, new_std, b)" by (cases c) auto
  obtain r p1 where c1: "change p new_avg new_std b = Inr (r, p1)" and rest: "changes p1 cs = Inr p'"
    using Cons.prems(2) c by (auto simp: on_ok_def split: sum.splits)
  note f = frame_get_med [OF change_frame [OF c1] Cons.prems(1)]
  show ?case using Cons.IH [OF f(2) rest] f(1,3) by simp
qed

text \<open>
  C10 (the code departs from it): \<^verbatim>\<open>change\<close> is to alter the average and the std
  only, so the median established at construction stays. For a per-band literal the
  source makes \<^verbatim>\<open>_med\<close> and \<^verbatim>\<open>_avg\<close> two names of one array, and the assignment
  \<^verbatim>\<open>self._avg[band_id - 1] = avg_new\<close> writes into it: committing 5.0 to the average
  of band 1 of \<^verbatim>\<open>"[1.0, 2.0]"\<close> turns the median of band 1 from 1.0 into 5.0.
\<close>

theorem C10_median_follows_average:
  "on_ok (init example_builtins id None None KFloat None (PStr ''[1.0, 2.0]'')) (\<lambda>p.
     on_ok (change p (PFloat 5) PNone 1) (\<lambda>(r, p').
     Inr (get_med p 1, r, get_med p' 1)))
   = Inr (Inr (PFloat 1), True, Inr (PFloat 5))"
  by (simp add: ex_bands0) (simp add: change_defs sig5_differ_5_1 read_defs)

text \<open>
  Where the median is apart, it is kept: \<^verbatim>\<open>change\<close> never assigns the median
  attribute, and for every Parameter whose median is not the same object as its average
  or its std (every scalar Parameter, every per-band one built from a tuple with a
  distribution dictionary), after every sequence of \<^verbatim>\<open>change\<close> calls that return,
  \<^verbatim>\<open>get_med\<close> and the median component of \<^verbatim>\<open>fetch\<close> give for every band what they
  gave before.
\<close>

lemma median_kept_when_apart:
  assumes "med_apart p" and "changes p cs = Inr p'"
  shows "get_med p' band_id = get_med p band_id
         \<and> (\<forall>a m s. fetch p band_id = Inr (a, m, s) \<longrightarrow> (\<exists>a' s'. fetch p' band_id = Inr (a', m, s')))
         \<and> p_med p' = p_med p \<and> med_apart p'"
proof -
  have g: "get_med p' band_id = get_med p band_id" and rest: "p_med p' = p_med p \<and> med_apart p'"
    using changes_med [OF assms] by simp_all
  have "\<exists>a' s'. fetch p' band_id = Inr (a', m, s')" if "fetch p band_id = Inr (a, m, s)" for a m s
  proof -
    have "get_med p band_id = Inr m" using that by (simp add: get_med_def on_ok_def)
    then have "get_med p' band_id = Inr m" using g by simp
    then show ?thesis
      by (cases "fetch p' band_id") (auto simp: get_med_def on_ok_def)
  qed
  then show ?thesis using g rest by blast
qed

text \<open>
  A scalar Parameter after two committed calls, and a per-band Parameter built from a
  tuple after one: the median is still 1.0.
\<close>

lemma median_kept_when_apart_example:
  "med_apart \<lparr>to_SI = id, p_min = Some 0, p_max = Some 2, p_type = KFloat,
        band_ids = None, mult_bands = Some False, p_val = PNone,
        p_avg = PFloat 1, p_med = PFloat 1, p_std = PFloat 2, objs = []\<rparr>
   \<and> on_ok (init example_builtins id (Some 0) (Some 2) KFloat None (PStr ''1.0 +/- 2.0'')) (\<lambda>p.
       on_ok (changes p [(PFloat 5, PNone, 1), (PFloat 7, PFloat 5, 1)]) (\<lambda>p'.
       Inr (get_avg p' 1, get_med p' 1, get_std p' 1)))
     = Inr (Inr (PFloat 7), Inr (PFloat 1), Inr (PFloat 5))
   \<and> on_ok (init example_builtins id None None KFloat None
            (PTuple [PStr ''[1.0, 2.0]'', PDict []])) (\<lambda>p.
       on_ok (changes p [(PFloat 5, PNone, 1)]) (\<lambda>p'.
       Inr (get_avg p' 1, get_med p' 1)))
     = Inr (Inr (PFloat 5), Inr (PFloat 1))"
proof -
  let ?p = "\<lparr>to_SI = id, p_min = Some 0, p_max = Some 2, p_type = KFloat,
        band_ids = None, mult_bands = Some False, p_val = PNone,
        p_avg = PFloat 1, p_med = PFloat 1, p_std = PFloat 2, objs = []\<rparr>"
  let ?p' = "\<lparr>to_SI = id, p_min = Some 0, p_max = Some 2, p_type = KFloat,
        band_ids = None, mult_bands = Some False, p_val = PNone,
        p_avg = PFloat 7, p_med = PFloat 1, p_std = PFloat 5, objs = []\<rparr>"
  have a: "med_apart ?p" by (simp add: med_apart_def)
  have c: "changes ?p [(PFloat 5, PNone, 1), (PFloat 7, PFloat 5, 1)] = Inr ?p'"
    by (simp add: change_defs sig5_differ_5_1 sig5_differ_more)
  have m: "get_med ?p' 1 = get_med ?p 1"
    using median_kept_when_apart [OF a c, of 1] by blast
  have 1: "on_ok (init example_builtins id (Some 0) (Some 2) KFloat None (PStr ''1.0 +/- 2.0'')) (\<lambda>p.
       on_ok (changes p [(PFloat 5, PNone, 1), (PFloat 7, PFloat 5, 1)]) (\<lambda>p'.
       Inr (get_avg p' 1, get_med p' 1, get_std p' 1)))
     = Inr (Inr (PFloat 7), Inr (PFloat 1), Inr (PFloat 5))"
    unfolding ex_scalar using c m by (simp add: on_ok_def) (simp add: read_defs on_ok_def)
  let ?q = "\<lparr>to_SI = id, p_min = None, p_max = None, p_type = KFloat,
        band_ids = None, mult_bands = Some True, p_val = PRef 0,
        p_avg = PRef 1, p_med = PRef 2, p_std = PRef 3,
        objs = [(PyList, [PNone, PNone]), (PyList, [PFloat 1, PFloat 2]),
                (PyList, [PFloat 1, PFloat 2]), (PyList, [PFloat 0, PFloat 0])]\<rparr>"
  let ?q' = "\<lparr>to_SI = id, p_min = None, p_max = None, p_type = KFloat,
        band_ids = None, mult_bands = Some True, p_val = PRef 0,
        p_avg = PRef 1, p_med = PRef 2, p_std = PRef 3,
        objs = [(PyList, [PNone, PNone]), (PyList, [PFloat 5, PFloat 2]),
                (PyList, [PFloat 1, PFloat 2]), (PyList, [PFloat 0, PFloat 0])]\<rparr>"
  have b: "med_apart ?q" by (simp add: med_apart_def)
  have d: "changes ?q [(PFloat 5, PNone, 1)] = Inr ?q'"
    by (simp add: change_defs sig5_differ_5_1)
  have n: "get_med ?q' 1 = get_med ?q 1"
    using median_kept_when_apart [OF b d, of 1] by blast
  have 2: "on_ok (init example_builtins id None None KFloat None
            (PTuple [PStr ''[1.0, 2.0]'', PDict []])) (\<lambda>p.
       on_ok (changes p [(PFloat 5, PNone, 1)]) (\<lambda>p'.
       Inr (get_avg p' 1, get_med p' 1)))
     = Inr (Inr (PFloat 5), Inr (PFloat 1))"
    unfolding ex_tuple0 using d n by (simp add: on_ok_def) (simp add: read_defs on_ok_def)
  show ?thesis using a 1 2 by blast
qed

end
